theory Spec2Isabelle
  imports Complex_Main
begin

section \<open>JavaScript values and the host library (d3)\<close>

text \<open>
  The components are closures over mutable variables; a component is modelled by the
  record of its closure variables, and every function that assigns one of them returns
  the updated record. JavaScript numbers are modelled by \<open>real\<close>, the arithmetic of the
  code by exact arithmetic, but where the code turns a result into a whole number: there
  the result is rounded as the code rounds it, by the function \<open>fl\<close> below;
  a variable that may hold \<open>undefined\<close> (or a number that may be \<open>NaN\<close>, a date that
  may be invalid) is an \<open>option\<close>, with \<open>None\<close> for \<open>undefined\<close>/\<open>NaN\<close>.
  The only exception the modelled code can meet is the \<open>TypeError\<close> of the JavaScript
  runtime (a property read on \<open>undefined\<close>, a call of something that is not a function).
  A call that throws is modelled by the error alone: what the call had assigned before it
  threw is not given.
\<close>

datatype error = TypeError

text \<open>What a chained method returns: the component itself, or a stored value.\<close>

datatype 'a ret = This | Value 'a

subsection \<open>Dates\<close>

text \<open>
  \<open>new Date(x)\<close> for a number \<open>x\<close>: the time value of the date, in milliseconds. The date
  is invalid for \<open>NaN\<close> and when \<open>x\<close> is beyond 8.64e15 in magnitude; otherwise \<open>x\<close> is
  truncated to a whole number of milliseconds.
\<close>

definition newDate :: "real option \<Rightarrow> real option" where
  "newDate v =
     (case v of
        None \<Rightarrow> None
      | Some x \<Rightarrow>
          (if \<bar>x\<bar> > 8640000000000000 then None
           else Some (if 0 \<le> x then of_int \<lfloor>x\<rfloor> else of_int \<lceil>x\<rceil>)))"

subsection \<open>d3.min, d3.max, d3.extent\<close>

text \<open>
  \<open>d3.min(array, accessor)\<close> is \<open>d3_min num (map accessor array)\<close>, where \<open>num\<close> is the
  number a value is compared as (\<open>None\<close> for \<open>NaN\<close>, as of an invalid date). The function
  looks for the first value that is comparable (\<open>value >= value\<close>), then replaces the
  running minimum whenever \<open>min > value\<close>, a comparison that is false on \<open>NaN\<close>; it
  returns the value itself, and \<open>undefined\<close> when no value is comparable.
\<close>

definition js_gt :: "('b \<Rightarrow> real option) \<Rightarrow> 'b \<Rightarrow> 'b \<Rightarrow> bool" where
  "js_gt num a b = (case (num a, num b) of (Some x, Some y) \<Rightarrow> x > y | _ \<Rightarrow> False)"

fun d3_min :: "('b \<Rightarrow> real option) \<Rightarrow> 'b list \<Rightarrow> 'b option" where
  "d3_min num [] = None"
| "d3_min num (v # vs) =
     (case num v of
        None \<Rightarrow> d3_min num vs
      | Some x \<Rightarrow> Some (fold (\<lambda>w m. if js_gt num m w then w else m) vs v))"

fun d3_max :: "('b \<Rightarrow> real option) \<Rightarrow> 'b list \<Rightarrow> 'b option" where
  "d3_max num [] = None"
| "d3_max num (v # vs) =
     (case num v of
        None \<Rightarrow> d3_max num vs
      | Some x \<Rightarrow> Some (fold (\<lambda>w m. if js_gt num w m then w else m) vs v))"

text \<open>\<open>d3.extent\<close> returns the pair \<open>[min, max]\<close>, found in one pass.\<close>

fun d3_extent :: "('b \<Rightarrow> real option) \<Rightarrow> 'b list \<Rightarrow> 'b option \<times> 'b option" where
  "d3_extent num [] = (None, None)"
| "d3_extent num (v # vs) =
     (case num v of
        None \<Rightarrow> d3_extent num vs
      | Some x \<Rightarrow>
          (let (lo, hi) = fold (\<lambda>w (lo, hi). (if js_gt num lo w then w else lo,
                                               if js_gt num w hi then w else hi))
                               vs (v, v)
           in (Some lo, Some hi)))"

subsection \<open>Ordinal scales\<close>

text \<open>
  \<open>d3.scaleOrdinal()\<close>: a domain (a list of keys without repetition, in insertion order)
  and a range. Calling the scale on a key that is not in the domain appends the key to the
  domain (the implicit domain of d3), so a call returns the value and the scale after the
  call. The value is \<open>range[(i - 1) % range.length]\<close> for the 1-based index \<open>i\<close> of the key,
  which is \<open>undefined\<close> for an empty range.
\<close>

record 'k ordinal =
  o_domain :: "'k list"
  o_range :: "string list"

fun index_of :: "'k \<Rightarrow> 'k list \<Rightarrow> nat option" where
  "index_of k [] = None"
| "index_of k (x # xs) = (if k = x then Some 1 else map_option Suc (index_of k xs))"

definition range_at :: "string list \<Rightarrow> nat \<Rightarrow> string option" where
  "range_at rng i = (if rng = [] then None else Some (rng ! ((i - 1) mod length rng)))"

definition ordinal_call :: "'k ordinal \<Rightarrow> 'k \<Rightarrow> string option \<times> 'k ordinal" where
  "ordinal_call sc d =
     (case index_of d (o_domain sc) of
        Some i \<Rightarrow> (range_at (o_range sc) i, sc)
      | None \<Rightarrow>
          (let dom' = o_domain sc @ [d]
           in (range_at (o_range sc) (length dom'), sc\<lparr>o_domain := dom'\<rparr>)))"

text \<open>\<open>selection.attr(name, f)\<close> calls \<open>f\<close> on the data of the selection in order.\<close>

fun ordinal_calls :: "'k ordinal \<Rightarrow> 'k list \<Rightarrow> string option list \<times> 'k ordinal" where
  "ordinal_calls sc [] = ([], sc)"
| "ordinal_calls sc (k # ks) =
     (let (v, sc1) = ordinal_call sc k;
          (vs, sc2) = ordinal_calls sc1 ks
      in (v # vs, sc2))"

text \<open>\<open>scale.domain(keys)\<close> keeps the first occurrence of every key.\<close>

fun ordinal_domain :: "'k list \<Rightarrow> 'k list \<Rightarrow> 'k list" where
  "ordinal_domain acc [] = acc"
| "ordinal_domain acc (d # ds) = ordinal_domain (if d \<in> set acc then acc else acc @ [d]) ds"

definition scaleOrdinal :: "'k list \<Rightarrow> string list \<Rightarrow> 'k ordinal" where
  "scaleOrdinal ks rng = \<lparr>o_domain = ordinal_domain [] ks, o_range = rng\<rparr>"

subsection \<open>Continuous scales\<close>

text \<open>
  A linear or time scale is known to the components by its domain and its range. A domain
  bound is \<open>None\<close> when it was computed from \<open>undefined\<close> (\<open>NaN\<close>, an invalid date); the
  bounds of a time scale are time values in milliseconds. Four things are the host's
  business and parameters of the functions below: \<open>ap\<close>, the application of an x or y
  scale to a number; \<open>nice\<close>, what \<open>linear.nice()\<close> makes of a domain; \<open>parse\<close>, the
  time value of \<open>new Date(s)\<close> for the string \<open>s\<close> that \<open>date + 8.64e7\<close> is when \<open>date\<close> is
  a \<open>Date\<close> object (the date printed, followed by \<open>86400000\<close>), given the time value of
  \<open>date\<close>: what such a string parses to is left to the JavaScript implementation; and
  \<open>fl\<close>, the rounding of a real number to the nearest double: a sum, a difference or a
  product of the code is \<open>fl\<close> of the exact one. The model applies \<open>fl\<close> to the argument of
  \<open>new Date\<close>, which is then truncated, and to that of \<open>toFixed\<close>; elsewhere it computes
  exactly.
\<close>

datatype scale_kind = Linear | Time

type_synonym jsdomain = "real option \<times> real option"

record scale =
  kind :: scale_kind
  s_domain :: jsdomain
  s_range :: "real \<times> real"

subsection \<open>Dispatchers and transitions\<close>

text \<open>\<open>d3.dispatch(type, ...)\<close> returns an object, not a function.\<close>

datatype dispatcher = Dispatch "string list"

record transition =
  ease :: string
  duration :: real

section \<open>component/candleSticks.js\<close>

text \<open>
  A candle datum (field \<open>open\<close> of the source is \<open>open'\<close>) and a series (field \<open>values\<close>
  of the source is \<open>values'\<close>). The \<open>date\<close> of a candle is a number, a timestamp in
  milliseconds, or a \<open>Date\<close> object, given by its time value; \<open>dateValue\<close> is the number
  it is in a subtraction, in a comparison and under a time scale.
\<close>

datatype jsdate = DNumber real | DDate real

fun dateValue :: "jsdate \<Rightarrow> real" where
  "dateValue (DNumber x) = x"
| "dateValue (DDate t) = t"

record candle =
  date :: jsdate
  open' :: real
  high :: real
  low :: real
  close :: real

record 'v series =
  key :: string
  values' :: "'v list"

text \<open>The closure variables of the component, with the defaults of the source.\<close>

record candleSticks =
  cs_width :: real
  cs_height :: real
  cs_transition :: transition
  cs_colors :: "string list"
  cs_dispatch :: dispatcher
  cs_xScale :: "scale option"
  cs_yScale :: "scale option"
  cs_colorScale :: "bool ordinal option"
  cs_candleWidth :: real
  cs_classed :: string

definition customEvents :: "string list" where
  "customEvents = [''customValueMouseOver'', ''customValueMouseOut'', ''customValueClick'',
     ''customSeriesMouseOver'', ''customSeriesMouseOut'', ''customSeriesClick'']"

definition candleSticks :: candleSticks where
  "candleSticks =
     \<lparr>cs_width = 400, cs_height = 400,
      cs_transition = \<lparr>ease = ''easeBounce'', duration = 500\<rparr>,
      cs_colors = [''green'', ''red''],
      cs_dispatch = Dispatch customEvents,
      cs_xScale = None, cs_yScale = None,
      cs_colorScale = Some (scaleOrdinal [True, False] [''green'', ''red'']),
      cs_candleWidth = 3, cs_classed = ''candleSticks''\<rparr>"

text \<open>
  The two bounds of \<open>xDomain\<close>. \<open>minDate - 8.64e7\<close> is a subtraction of numbers whatever
  \<open>minDate\<close> is (\<open>NaN\<close> for \<open>undefined\<close>). \<open>maxDate + 8.64e7\<close> is an addition of numbers
  when \<open>maxDate\<close> is a number, \<open>NaN\<close> when it is \<open>undefined\<close>, and the concatenation of two
  strings when it is a \<open>Date\<close> object. The difference and the sum are those of doubles,
  \<open>fl\<close> of the exact ones.
\<close>

definition xDomain_lower :: "(real \<Rightarrow> real) \<Rightarrow> jsdate option \<Rightarrow> real option" where
  "xDomain_lower fl minDate = newDate (map_option (\<lambda>d. fl (dateValue d - 86400000)) minDate)"

definition xDomain_upper ::
  "(real \<Rightarrow> real option) \<Rightarrow> (real \<Rightarrow> real) \<Rightarrow> jsdate option \<Rightarrow> real option" where
  "xDomain_upper parse fl maxDate =
     (case maxDate of
        None \<Rightarrow> newDate None
      | Some (DNumber x) \<Rightarrow> newDate (Some (fl (x + 86400000)))
      | Some (DDate t) \<Rightarrow> parse t)"

text \<open>
  \<open>init(data)\<close>: \<open>data\<close> is \<open>selection.data()[0]\<close>, \<open>undefined\<close> for an empty selection,
  and then \<open>data.values\<close> throws. Each scale is computed only when its variable is
  \<open>undefined\<close>.
\<close>

definition cs_init ::
  "(jsdomain \<Rightarrow> jsdomain) \<Rightarrow> (real \<Rightarrow> real option) \<Rightarrow> (real \<Rightarrow> real) \<Rightarrow> candleSticks
     \<Rightarrow> candle series option \<Rightarrow> error + candleSticks" where
  "cs_init nice parse fl st data =
     (case data of
        None \<Rightarrow> Inl TypeError
      | Some s \<Rightarrow>
          (let maxDate = d3_max (\<lambda>d. Some (dateValue d)) (map date (values' s));
               minDate = d3_min (\<lambda>d. Some (dateValue d)) (map date (values' s));
               xDomain = (xDomain_lower fl minDate, xDomain_upper parse fl maxDate);
               yDomain = (d3_min Some (map low (values' s)), d3_max Some (map high (values' s)));
               colorScale = (case cs_colorScale st of
                               None \<Rightarrow> scaleOrdinal [True, False] (cs_colors st)
                             | Some c \<Rightarrow> c);
               xScale = (case cs_xScale st of
                           None \<Rightarrow> \<lparr>kind = Time, s_domain = xDomain, s_range = (0, cs_width st)\<rparr>
                         | Some x \<Rightarrow> x);
               yScale = (case cs_yScale st of
                           None \<Rightarrow> \<lparr>kind = Linear, s_domain = nice yDomain,
                                     s_range = (cs_height st, 0)\<rparr>
                         | Some y \<Rightarrow> y)
           in Inr (st\<lparr>cs_colorScale := Some colorScale, cs_xScale := Some xScale,
                       cs_yScale := Some yScale\<rparr>)))"

definition isUpDay :: "candle \<Rightarrow> bool" where
  "isUpDay d \<longleftrightarrow> close d > open' d"

text \<open>
  The document. A selected series group comes with the datum bound to it and with what it
  holds: its class, its id and its candle groups (the elements of class \<open>candle\<close>), in
  document order. A candle group has the datum bound to it, its fill and stroke, and at
  most one high-low line (the two points of its path) and one open-close bar; an attribute
  or a child that is not there is \<open>None\<close>. Event handlers are not part of the model.
\<close>

record rect =
  r_x :: real
  r_y :: real
  r_width :: real
  r_height :: real

record candle_el =
  datum :: candle
  fill :: "string option"
  stroke :: "string option"
  high_low_line :: "(real \<times> real) list option"
  open_close_bar :: "rect option"

record group_el =
  g_class :: string
  g_id :: string
  g_candles :: "candle_el list"

definition empty_group :: group_el where
  "empty_group = \<lparr>g_class = [], g_id = [], g_candles = []\<rparr>"

text \<open>
  \<open>highLowLines(bars)\<close> and \<open>openCloseBars(bars)\<close>, for one candle group of \<open>bars\<close>: the
  datum of the group is joined with its children of the class; a child is appended, with
  its attributes computed from the datum, only when the join has an entering datum, that
  is when the group has no such child yet. A child that is there stays as it is.
\<close>

definition highLowLines ::
  "(scale \<Rightarrow> real \<Rightarrow> real) \<Rightarrow> scale \<Rightarrow> scale \<Rightarrow> candle_el \<Rightarrow> candle_el" where
  "highLowLines ap xScale yScale bar =
     (case high_low_line bar of
        Some path \<Rightarrow> bar
      | None \<Rightarrow>
          (let d = datum bar
           in bar\<lparr>high_low_line :=
                    Some [(ap xScale (dateValue (date d)), ap yScale (high d)),
                          (ap xScale (dateValue (date d)), ap yScale (low d))]\<rparr>))"

definition openCloseBars ::
  "(scale \<Rightarrow> real \<Rightarrow> real) \<Rightarrow> scale \<Rightarrow> scale \<Rightarrow> real \<Rightarrow> candle_el \<Rightarrow> candle_el" where
  "openCloseBars ap xScale yScale candleWidth bar =
     (case open_close_bar bar of
        Some r \<Rightarrow> bar
      | None \<Rightarrow>
          (let d = datum bar
           in bar\<lparr>open_close_bar :=
                    Some \<lparr>r_x = ap xScale (dateValue (date d)) - candleWidth,
                          r_y = (if isUpDay d then ap yScale (close d) else ap yScale (open' d)),
                          r_width = candleWidth * 2,
                          r_height = (if isUpDay d then ap yScale (open' d) - ap yScale (close d)
                                      else ap yScale (close d) - ap yScale (open' d))\<rparr>\<rparr>))"

text \<open>
  The body of \<open>selection.each\<close> for one series group. The data \<open>d.values\<close> are joined by
  index with the candle groups the series group holds: a candle group that has a datum at
  its index is in the update selection and only gets that datum bound; the data beyond
  the candle groups enter, and for each a candle group is appended, the fill of every one
  set first, then the stroke of every one, each by a call of the colour scale; the candle
  groups beyond the data are the exit selection. \<open>candles\<close> is the entering groups merged
  with the updated ones. \<open>candles.exit()\<close> is the exit selection of a merged selection,
  which is empty: nothing is removed.
\<close>

definition cs_each ::
  "(scale \<Rightarrow> real \<Rightarrow> real) \<Rightarrow> candleSticks \<Rightarrow> scale \<Rightarrow> scale \<Rightarrow> bool ordinal
     \<Rightarrow> candle series \<times> group_el \<Rightarrow> group_el \<times> bool ordinal" where
  "cs_each ap st xScale yScale colorScale el =
     (let d = fst el;
          old = g_candles (snd el);
          update = map (\<lambda>(c, v). c\<lparr>datum := v\<rparr>) (zip old (values' d));
          entering = drop (length old) (values' d);
          (fills, c1) = ordinal_calls colorScale (map isUpDay entering);
          (strokes, c2) = ordinal_calls c1 (map isUpDay entering);
          enter = map (\<lambda>(v, f, s). \<lparr>datum = v, fill = f, stroke = s,
                                     high_low_line = None, open_close_bar = None\<rparr>)
                      (zip entering (zip fills strokes));
          candles = map (\<lambda>bar. openCloseBars ap xScale yScale (cs_candleWidth st)
                                 (highLowLines ap xScale yScale bar))
                        (update @ enter);
          exit = drop (length (values' d)) old
      in (\<lparr>g_class = cs_classed st, g_id = key d, g_candles = candles @ exit\<rparr>, c2))"

fun cs_groups ::
  "(scale \<Rightarrow> real \<Rightarrow> real) \<Rightarrow> candleSticks \<Rightarrow> scale \<Rightarrow> scale \<Rightarrow> bool ordinal
     \<Rightarrow> (candle series \<times> group_el) list \<Rightarrow> group_el list \<times> bool ordinal" where
  "cs_groups ap st xScale yScale colorScale [] = ([], colorScale)"
| "cs_groups ap st xScale yScale colorScale (el # els) =
     (let (g, c1) = cs_each ap st xScale yScale colorScale el;
          (gs, c2) = cs_groups ap st xScale yScale c1 els
      in (g # gs, c2))"

text \<open>
  \<open>my(selection)\<close>: the selection is the list of the selected series groups, each with
  its datum. It returns the component after the call and the series groups after it.
\<close>

definition cs_my ::
  "(jsdomain \<Rightarrow> jsdomain) \<Rightarrow> (real \<Rightarrow> real option) \<Rightarrow> (real \<Rightarrow> real) \<Rightarrow> (scale \<Rightarrow> real \<Rightarrow> real)
     \<Rightarrow> candleSticks \<Rightarrow> (candle series \<times> group_el) list
     \<Rightarrow> error + (candleSticks \<times> group_el list)" where
  "cs_my nice parse fl ap st selection =
     (case cs_init nice parse fl st (case selection of [] \<Rightarrow> None | el # _ \<Rightarrow> Some (fst el)) of
        Inl e \<Rightarrow> Inl e
      | Inr st1 \<Rightarrow>
          (case (cs_xScale st1, cs_yScale st1, cs_colorScale st1) of
             (Some xScale, Some yScale, Some colorScale) \<Rightarrow>
               (let (out, c) = cs_groups ap st1 xScale yScale colorScale selection
                in Inr (st1\<lparr>cs_colorScale := Some c\<rparr>, out))
           | _ \<Rightarrow> Inl TypeError))"

text \<open>
  The configuration methods. The argument is \<open>None\<close> for a call without arguments
  (\<open>arguments.length\<close> is 0). A scale variable may be \<open>undefined\<close>, so its value is an
  option of its own.
\<close>

definition cs_my_width :: "real option \<Rightarrow> candleSticks \<Rightarrow> real ret \<times> candleSticks" where
  "cs_my_width arg st =
     (case arg of None \<Rightarrow> (Value (cs_width st), st) | Some v \<Rightarrow> (This, st\<lparr>cs_width := v\<rparr>))"

definition cs_my_height :: "real option \<Rightarrow> candleSticks \<Rightarrow> real ret \<times> candleSticks" where
  "cs_my_height arg st =
     (case arg of None \<Rightarrow> (Value (cs_height st), st) | Some v \<Rightarrow> (This, st\<lparr>cs_height := v\<rparr>))"

definition cs_my_colorScale ::
  "bool ordinal option option \<Rightarrow> candleSticks \<Rightarrow> bool ordinal option ret \<times> candleSticks" where
  "cs_my_colorScale arg st =
     (case arg of None \<Rightarrow> (Value (cs_colorScale st), st)
      | Some v \<Rightarrow> (This, st\<lparr>cs_colorScale := v\<rparr>))"

definition cs_my_colors ::
  "string list option \<Rightarrow> candleSticks \<Rightarrow> string list ret \<times> candleSticks" where
  "cs_my_colors arg st =
     (case arg of None \<Rightarrow> (Value (cs_colors st), st) | Some v \<Rightarrow> (This, st\<lparr>cs_colors := v\<rparr>))"

definition cs_my_xScale ::
  "scale option option \<Rightarrow> candleSticks \<Rightarrow> scale option ret \<times> candleSticks" where
  "cs_my_xScale arg st =
     (case arg of None \<Rightarrow> (Value (cs_xScale st), st) | Some v \<Rightarrow> (This, st\<lparr>cs_xScale := v\<rparr>))"

definition cs_my_yScale ::
  "scale option option \<Rightarrow> candleSticks \<Rightarrow> scale option ret \<times> candleSticks" where
  "cs_my_yScale arg st =
     (case arg of None \<Rightarrow> (Value (cs_yScale st), st) | Some v \<Rightarrow> (This, st\<lparr>cs_yScale := v\<rparr>))"

definition cs_my_candleWidth :: "real option \<Rightarrow> candleSticks \<Rightarrow> real ret \<times> candleSticks" where
  "cs_my_candleWidth arg st =
     (case arg of None \<Rightarrow> (Value (cs_candleWidth st), st)
      | Some v \<Rightarrow> (This, st\<lparr>cs_candleWidth := v\<rparr>))"

text \<open>
  \<open>my.dispatch\<close> without arguments evaluates \<open>dispatch()\<close>: a call of the dispatcher object,
  which is not a function.
\<close>

definition cs_my_dispatch ::
  "dispatcher option \<Rightarrow> candleSticks \<Rightarrow> error + (dispatcher ret \<times> candleSticks)" where
  "cs_my_dispatch arg st =
     (case arg of None \<Rightarrow> Inl TypeError | Some v \<Rightarrow> Inr (This, st\<lparr>cs_dispatch := v\<rparr>))"


section \<open>The line chart (unnamed/part\_000)\<close>

text \<open>
  A point of a line series: its \<open>key\<close> (\<open>pkey\<close>) is a number of seconds in the raw input
  and a \<open>Date\<close> once \<open>init\<close> has converted it, given by its time value in milliseconds
  (\<open>None\<close> for an invalid date); its \<open>value\<close> is \<open>pvalue\<close>. \<open>keyValue\<close> is the number
  a key is in \<open>b.key * 1000\<close>, in the comparisons of \<open>d3.extent\<close> and as a bound of a time
  scale (\<open>None\<close> for \<open>NaN\<close>).
\<close>

datatype jskey = KNumber real | KDate "real option"

fun keyValue :: "jskey \<Rightarrow> real option" where
  "keyValue (KNumber x) = Some x"
| "keyValue (KDate t) = t"

record point =
  pkey :: jskey
  pvalue :: real

text \<open>
  \<open>dataParse\<close> is not among the sources; \<open>init\<close> reads \<open>maxValue\<close> and \<open>groupNames\<close> of its
  result, and the model takes the function as the parameter \<open>dataParse\<close>.
\<close>

record sliced =
  maxValue :: real
  groupNames :: "string list"

record margin =
  m_top :: real
  m_right :: real
  m_bottom :: real
  m_left :: real

record axis =
  orient :: string
  a_scale :: scale
  tickFormat :: "string option"

text \<open>
  The closure variables (\<open>svg\<close> and \<open>chart\<close>, the containers in the document, are left out).
  The default \<open>colors\<close>, \<open>palette.categorical(3)\<close>, is a parameter: the palette is not among
  the sources.
\<close>

record lineChart =
  lc_classed :: string
  lc_width :: real
  lc_height :: real
  lc_margin :: margin
  lc_transition :: transition
  lc_colors :: "string list"
  lc_dispatch :: dispatcher
  lc_chartW :: "real option"
  lc_chartH :: "real option"
  lc_xScale :: "scale option"
  lc_yScale :: "scale option"
  lc_xAxis :: "axis option"
  lc_yAxis :: "axis option"
  lc_colorScale :: "string ordinal option"
  lc_yAxisLabel :: "string option"

definition lineChart :: "string list \<Rightarrow> lineChart" where
  "lineChart categorical3 =
     \<lparr>lc_classed = ''lineChart'', lc_width = 400, lc_height = 300,
      lc_margin = \<lparr>m_top = 20, m_right = 20, m_bottom = 40, m_left = 40\<rparr>,
      lc_transition = \<lparr>ease = ''easeBounce'', duration = 500\<rparr>,
      lc_colors = categorical3,
      lc_dispatch = Dispatch customEvents,
      lc_chartW = None, lc_chartH = None, lc_xScale = None, lc_yScale = None,
      lc_xAxis = None, lc_yAxis = None, lc_colorScale = None, lc_yAxisLabel = None\<rparr>"

text \<open>
  \<open>my\<close> calls \<open>init\<close> on the data of every selected element and then draws with
  sub-components that are not among the sources; the model is of \<open>init\<close>.
  The date conversion of \<open>init\<close> assigns \<open>data[i].values[j].key\<close>: it changes the caller's
  array, so \<open>init\<close> returns the data after the call beside the component. \<open>data[0]\<close> of an
  empty array is \<open>undefined\<close>, and reading its \<open>values\<close> throws. \<open>b.key * 1000\<close> is the
  product of doubles, \<open>fl\<close> of the exact one. \<open>d3.extent\<close> returns two of the \<open>Date\<close>
  objects; the time scale keeps their time values as its domain.
\<close>

definition convertDates :: "(real \<Rightarrow> real) \<Rightarrow> point series list \<Rightarrow> point series list" where
  "convertDates fl data =
     map (\<lambda>d. d\<lparr>values' :=
                  map (\<lambda>b. b\<lparr>pkey := KDate (newDate (map_option (\<lambda>x. fl (x * 1000))
                                                        (keyValue (pkey b))))\<rparr>)
                      (values' d)\<rparr>)
         data"

definition lc_init ::
  "(point series list \<Rightarrow> sliced) \<Rightarrow> (real \<Rightarrow> real) \<Rightarrow> lineChart \<Rightarrow> point series list
     \<Rightarrow> error + (lineChart \<times> point series list)" where
  "lc_init dataParse fl st data =
     (let chartW = lc_width st - m_left (lc_margin st) - m_right (lc_margin st);
          chartH = lc_height st - m_top (lc_margin st) - m_bottom (lc_margin st);
          slicedData = dataParse data;
          data1 = convertDates fl data
      in case data1 of
           [] \<Rightarrow> Inl TypeError
         | d0 # _ \<Rightarrow>
             (let dateDomain = d3_extent keyValue (map pkey (values' d0));
                  colorScale = (case lc_colorScale st of
                                  None \<Rightarrow> scaleOrdinal (groupNames slicedData) (lc_colors st)
                                | Some c \<Rightarrow> c);
                  xScale = \<lparr>kind = Time,
                            s_domain = (Option.bind (fst dateDomain) keyValue,
                                        Option.bind (snd dateDomain) keyValue),
                            s_range = (0, chartW)\<rparr>;
                  yScale = \<lparr>kind = Linear,
                            s_domain = (Some 0, Some (maxValue slicedData * 1.05)),
                            s_range = (chartH, 0)\<rparr>
              in Inr (st\<lparr>lc_chartW := Some chartW, lc_chartH := Some chartH,
                          lc_colorScale := Some colorScale,
                          lc_xScale := Some xScale, lc_yScale := Some yScale,
                          lc_xAxis := Some \<lparr>orient = ''bottom'', a_scale = xScale,
                                             tickFormat = Some ''%d-%b-%y''\<rparr>,
                          lc_yAxis := Some \<lparr>orient = ''left'', a_scale = yScale,
                                             tickFormat = None\<rparr>\<rparr>,
                      data1)))"

definition lc_my_width :: "real option \<Rightarrow> lineChart \<Rightarrow> real ret \<times> lineChart" where
  "lc_my_width arg st =
     (case arg of None \<Rightarrow> (Value (lc_width st), st) | Some v \<Rightarrow> (This, st\<lparr>lc_width := v\<rparr>))"

definition lc_my_height :: "real option \<Rightarrow> lineChart \<Rightarrow> real ret \<times> lineChart" where
  "lc_my_height arg st =
     (case arg of None \<Rightarrow> (Value (lc_height st), st) | Some v \<Rightarrow> (This, st\<lparr>lc_height := v\<rparr>))"

definition lc_my_margin :: "margin option \<Rightarrow> lineChart \<Rightarrow> margin ret \<times> lineChart" where
  "lc_my_margin arg st =
     (case arg of None \<Rightarrow> (Value (lc_margin st), st) | Some v \<Rightarrow> (This, st\<lparr>lc_margin := v\<rparr>))"

definition lc_my_yAxisLabel ::
  "string option option \<Rightarrow> lineChart \<Rightarrow> string option ret \<times> lineChart" where
  "lc_my_yAxisLabel arg st =
     (case arg of None \<Rightarrow> (Value (lc_yAxisLabel st), st)
      | Some v \<Rightarrow> (This, st\<lparr>lc_yAxisLabel := v\<rparr>))"

definition lc_my_transition ::
  "transition option \<Rightarrow> lineChart \<Rightarrow> transition ret \<times> lineChart" where
  "lc_my_transition arg st =
     (case arg of None \<Rightarrow> (Value (lc_transition st), st)
      | Some v \<Rightarrow> (This, st\<lparr>lc_transition := v\<rparr>))"

definition lc_my_colors ::
  "string list option \<Rightarrow> lineChart \<Rightarrow> string list ret \<times> lineChart" where
  "lc_my_colors arg st =
     (case arg of None \<Rightarrow> (Value (lc_colors st), st) | Some v \<Rightarrow> (This, st\<lparr>lc_colors := v\<rparr>))"

definition lc_my_colorScale ::
  "string ordinal option option \<Rightarrow> lineChart \<Rightarrow> string ordinal option ret \<times> lineChart" where
  "lc_my_colorScale arg st =
     (case arg of None \<Rightarrow> (Value (lc_colorScale st), st)
      | Some v \<Rightarrow> (This, st\<lparr>lc_colorScale := v\<rparr>))"

definition lc_my_dispatch ::
  "dispatcher option \<Rightarrow> lineChart \<Rightarrow> error + (dispatcher ret \<times> lineChart)" where
  "lc_my_dispatch arg st =
     (case arg of None \<Rightarrow> Inl TypeError | Some v \<Rightarrow> Inr (This, st\<lparr>lc_dispatch := v\<rparr>))"


section \<open>component/circularLabels.js\<close>

text \<open>
  The radial scale is a linear scale (it has a \<open>ticks\<close> method; the list that \<open>ticks()\<close>
  returns is carried with it) or a band scale. A tick is a number or a string.
\<close>

datatype tick = TNumber real | TString string

datatype radialScale =
  RadialLinear "real list" "real \<times> real" "real list"
| RadialBand "string list" "real \<times> real"

fun radial_range :: "radialScale \<Rightarrow> real \<times> real" where
  "radial_range (RadialLinear ds rng ts) = rng"
| "radial_range (RadialBand ds rng) = rng"

text \<open>\<open>tickData\<close>: \<open>radialScale.ticks()\<close> for a linear scale, \<open>radialScale.domain()\<close> otherwise.\<close>

fun tickData :: "radialScale \<Rightarrow> tick list" where
  "tickData (RadialLinear ds rng ts) = map TNumber ts"
| "tickData (RadialBand ds rng) = map TString ds"

text \<open>
  \<open>x.toFixed(0)\<close>: the integer nearest to \<open>x\<close>, the one of larger magnitude of two equally
  near ones; its decimal numeral is the string of the source, for \<open>x\<close> below \<open>1e21\<close> and
  not negative, as the numbers are that the source applies it to.
\<close>

definition toFixed0 :: "real \<Rightarrow> int" where
  "toFixed0 x = (if x < 0 then - \<lfloor>- x + 1 / 2\<rfloor> else \<lfloor>x + 1 / 2\<rfloor>)"

text \<open>
  The temporary block of the linear branch: it logs the minimum and the maximum of the
  domain and the array \<open>newtick\<close>, and assigns nothing that is read later. The difference,
  the quotient and the products are those of doubles, \<open>fl\<close> of the exact ones.
\<close>

datatype logged = LogNumber "real option" | LogArray "int option list"

definition newtick :: "(real \<Rightarrow> real) \<Rightarrow> real list \<Rightarrow> nat \<Rightarrow> int option list" where
  "newtick fl ds split =
     (let min = d3_min Some ds;
          max = d3_max Some ds;
          range = (case (max, min) of (Some a, Some b) \<Rightarrow> Some (fl (a - b)) | _ \<Rightarrow> None);
          each = map_option (\<lambda>r. fl (r / real split)) range
      in map (\<lambda>i. map_option (\<lambda>e. toFixed0 (fl (e * real i))) each) [0..<split])"

fun temp_log :: "(real \<Rightarrow> real) \<Rightarrow> radialScale \<Rightarrow> logged list" where
  "temp_log fl (RadialLinear ds rng ts) =
     [LogNumber (d3_min Some ds), LogNumber (d3_max Some ds),
      LogArray (newtick fl ds (length ts))]"
| "temp_log fl (RadialBand ds rng) = []"

text \<open>
  \<open>textScale(i)\<close> for \<open>textScale = d3.scaleLinear().domain([0, n]).range(rng)\<close>: the linear
  interpolation of d3. It is applied to the indices \<open>i < n\<close> only.
\<close>

definition textScale :: "nat \<Rightarrow> real \<times> real \<Rightarrow> nat \<Rightarrow> real" where
  "textScale n rng i = fst rng + (real i - 0) / (real n - 0) * (snd rng - fst rng)"

definition label_data :: "radialScale \<Rightarrow> (tick \<times> real) list" where
  "label_data rs =
     map (\<lambda>(i, d). (d, (textScale (length (tickData rs)) (radial_range rs) i / 360) * 100))
         (enumerate 0 (tickData rs))"

text \<open>
  \<open>capitalizeLabels\<close> is assigned once, \<open>false\<close>, and no method sets it.
  \<open>toUpperCase\<close> is a method of strings: on a number tick the call would throw.
\<close>

definition capitalizeLabels :: bool where
  "capitalizeLabels = False"

definition toUpperCase :: "string \<Rightarrow> string" where
  "toUpperCase s =
     map (\<lambda>c. let n = (of_char c :: nat) in if 97 \<le> n \<and> n \<le> 122 then char_of (n - 32) else c) s"

definition label_text :: "tick \<Rightarrow> error + tick" where
  "label_text t =
     (if capitalizeLabels
      then (case t of TString s \<Rightarrow> Inr (TString (toUpperCase s)) | TNumber x \<Rightarrow> Inl TypeError)
      else Inr t)"

text \<open>
  What the model keeps of the document: for one selected element, the text and the
  \<open>startOffset\<close> percentage of its text elements, in the order of the ticks, as they are
  after the render, once the transition of the text elements that were there before has
  run. Both are assigned to the entering text elements (in the \<open>enter\<close> chain) and to the
  existing ones (in the transition) by the same two functions, and the text elements
  beyond the ticks are removed, so they do not depend on what the element held before.
  The label path and the \<open>text-anchor\<close> style, which only entering elements are given,
  are not part of the model.
\<close>

record label =
  l_text :: tick
  l_offset :: real

fun text_elements :: "(tick \<times> real) list \<Rightarrow> error + label list" where
  "text_elements [] = Inr []"
| "text_elements ((t, off) # ds) =
     (case label_text t of
        Inl e \<Rightarrow> Inl e
      | Inr txt \<Rightarrow>
          (case text_elements ds of
             Inl e \<Rightarrow> Inl e
           | Inr ls \<Rightarrow> Inr (\<lparr>l_text = txt, l_offset = off\<rparr> # ls)))"

record circularLabels =
  cl_width :: real
  cl_height :: real
  cl_radialScale :: "radialScale option"
  cl_radius :: "real option"
  cl_textAnchor :: string

definition circularLabels :: circularLabels where
  "circularLabels =
     \<lparr>cl_width = 400, cl_height = 300, cl_radialScale = None, cl_radius = None,
      cl_textAnchor = ''start''\<rparr>"

text \<open>
  The body of \<open>selection.each\<close>: the component after it, the labels of the element and
  what was logged. The radius is assigned first, the default one when none is stored.
  \<open>radialScale.ticks\<close> is read next: it throws when no radial scale has been set.
\<close>

definition cl_each ::
  "(real \<Rightarrow> real) \<Rightarrow> circularLabels \<Rightarrow> error + (circularLabels \<times> label list \<times> logged list)" where
  "cl_each fl st =
     (let defaultRadius = min (cl_width st) (cl_height st) / 2;
          radius = (case cl_radius st of None \<Rightarrow> defaultRadius | Some r \<Rightarrow> r)
      in case cl_radialScale st of
           None \<Rightarrow> Inl TypeError
         | Some rs \<Rightarrow>
             (case text_elements (label_data rs) of
                Inl e \<Rightarrow> Inl e
              | Inr ls \<Rightarrow> Inr (st\<lparr>cl_radius := Some radius\<rparr>, ls, temp_log fl rs)))"

text \<open>\<open>my(selection)\<close>: the body runs once for every selected element, in order.\<close>

fun cl_my ::
  "(real \<Rightarrow> real) \<Rightarrow> circularLabels \<Rightarrow> 'a list
     \<Rightarrow> error + (circularLabels \<times> label list list \<times> logged list)" where
  "cl_my fl st [] = Inr (st, [], [])"
| "cl_my fl st (d # ds) =
     (case cl_each fl st of
        Inl e \<Rightarrow> Inl e
      | Inr (st1, el, lg) \<Rightarrow>
          (case cl_my fl st1 ds of
             Inl e \<Rightarrow> Inl e
           | Inr (st2, els, lgs) \<Rightarrow> Inr (st2, el # els, lg @ lgs)))"

definition cl_my_height :: "real option \<Rightarrow> circularLabels \<Rightarrow> real ret \<times> circularLabels" where
  "cl_my_height arg st =
     (case arg of None \<Rightarrow> (Value (cl_height st), st) | Some v \<Rightarrow> (This, st\<lparr>cl_height := v\<rparr>))"

definition cl_my_width :: "real option \<Rightarrow> circularLabels \<Rightarrow> real ret \<times> circularLabels" where
  "cl_my_width arg st =
     (case arg of None \<Rightarrow> (Value (cl_width st), st) | Some v \<Rightarrow> (This, st\<lparr>cl_width := v\<rparr>))"

definition cl_my_radius ::
  "real option option \<Rightarrow> circularLabels \<Rightarrow> real option ret \<times> circularLabels" where
  "cl_my_radius arg st =
     (case arg of None \<Rightarrow> (Value (cl_radius st), st) | Some v \<Rightarrow> (This, st\<lparr>cl_radius := v\<rparr>))"

definition cl_my_radialScale ::
  "radialScale option option \<Rightarrow> circularLabels \<Rightarrow> radialScale option ret \<times> circularLabels" where
  "cl_my_radialScale arg st =
     (case arg of None \<Rightarrow> (Value (cl_radialScale st), st)
      | Some v \<Rightarrow> (This, st\<lparr>cl_radialScale := v\<rparr>))"

definition cl_my_textAnchor ::
  "string option \<Rightarrow> circularLabels \<Rightarrow> string ret \<times> circularLabels" where
  "cl_my_textAnchor arg st =
     (case arg of None \<Rightarrow> (Value (cl_textAnchor st), st)
      | Some v \<Rightarrow> (This, st\<lparr>cl_textAnchor := v\<rparr>))"


section \<open>Auxiliary notions and examples\<close>

text \<open>
  \<open>extends sc sc'\<close>: \<open>sc'\<close> is the ordinal scale \<open>sc\<close> after some calls, its domain grown
  at the end by the keys the calls added.
\<close>

definition extends :: "'k ordinal \<Rightarrow> 'k ordinal \<Rightarrow> bool" where
  "extends sc sc' \<longleftrightarrow> (\<exists>more. sc' = sc\<lparr>o_domain := o_domain sc @ more\<rparr>)"

text \<open>
  A host for the examples. \<open>linear_ap\<close> is d3's linear interpolation between the bounds of
  a scale whose domain bounds are numbers (no example applies a scale without them).
  \<open>ex_nice\<close> is \<open>nice()\<close> of d3 on the one domain the examples compute: [3/2, 19/2] is
  extended to [1, 10] (the step is 1). \<open>ex_parse\<close> is an implementation for which the
  string of a date followed by \<open>86400000\<close> is no date; no example has a \<open>Date\<close> object as
  the date of a candle. \<open>ex_fl\<close> is the rounding to doubles on the numbers it is applied
  to in the examples, all of which are doubles: it leaves them as they are.
\<close>

definition linear_ap :: "scale \<Rightarrow> real \<Rightarrow> real" where
  "linear_ap s x =
     (case s_domain s of
        (Some a, Some b) \<Rightarrow> fst (s_range s) + (x - a) / (b - a) * (snd (s_range s) - fst (s_range s))
      | _ \<Rightarrow> fst (s_range s))"

definition ex_nice :: "jsdomain \<Rightarrow> jsdomain" where
  "ex_nice d = (if d = (Some (3 / 2), Some (19 / 2)) then (Some 1, Some 10) else d)"

definition ex_parse :: "real \<Rightarrow> real option" where
  "ex_parse t = None"

definition ex_fl :: "real \<Rightarrow> real" where
  "ex_fl x = x"

text \<open>
  A series of three candles (an up day, a down day, a day that closes where it opened), a
  component that was given both scales by its chart, and the series group after the
  series has been rendered into it.
\<close>

definition ex_up :: candle where
  "ex_up = \<lparr>date = DNumber 1, open' = 2, high = 19 / 2, low = 3 / 2, close = 8\<rparr>"

definition ex_down :: candle where
  "ex_down = \<lparr>date = DNumber 2, open' = 8, high = 9, low = 4, close = 5\<rparr>"

definition ex_flat :: candle where
  "ex_flat = \<lparr>date = DNumber 3, open' = 5, high = 6, low = 4, close = 5\<rparr>"

definition ex_series :: "candle series" where
  "ex_series = \<lparr>key = ''BTC'', values' = [ex_up, ex_down, ex_flat]\<rparr>"

definition ex_xScale :: scale where
  "ex_xScale = \<lparr>kind = Time, s_domain = (Some 0, Some 4), s_range = (0, 400)\<rparr>"

definition ex_yScale :: scale where
  "ex_yScale = \<lparr>kind = Linear, s_domain = (Some 0, Some 10), s_range = (400, 0)\<rparr>"

definition ex_chart :: candleSticks where
  "ex_chart = candleSticks\<lparr>cs_xScale := Some ex_xScale, cs_yScale := Some ex_yScale\<rparr>"

definition ex_el_up :: candle_el where
  "ex_el_up = \<lparr>datum = ex_up, fill = Some ''green'', stroke = Some ''green'',
     high_low_line = Some [(100, 20), (100, 340)],
     open_close_bar = Some \<lparr>r_x = 97, r_y = 80, r_width = 6, r_height = 240\<rparr>\<rparr>"

definition ex_el_down :: candle_el where
  "ex_el_down = \<lparr>datum = ex_down, fill = Some ''red'', stroke = Some ''red'',
     high_low_line = Some [(200, 40), (200, 240)],
     open_close_bar = Some \<lparr>r_x = 197, r_y = 80, r_width = 6, r_height = 120\<rparr>\<rparr>"

definition ex_el_flat :: candle_el where
  "ex_el_flat = \<lparr>datum = ex_flat, fill = Some ''red'', stroke = Some ''red'',
     high_low_line = Some [(300, 160), (300, 240)],
     open_close_bar = Some \<lparr>r_x = 297, r_y = 200, r_width = 6, r_height = 0\<rparr>\<rparr>"

definition ex_group :: group_el where
  "ex_group = \<lparr>g_class = ''candleSticks'', g_id = ''BTC'',
     g_candles = [ex_el_up, ex_el_down, ex_el_flat]\<rparr>"

text \<open>
  The data of a second render into the same series group: the first day now closes where
  it opened, the second is now an up day, the third a down day, and a fourth day, an up
  day, is new. \<open>ex_group2\<close> is the series group after the second render: the first three
  candle groups have the new data bound and are otherwise as the first render left them;
  the fourth has been appended.
\<close>

definition ex_level :: candle where
  "ex_level = \<lparr>date = DNumber 1, open' = 6, high = 7, low = 5, close = 6\<rparr>"

definition ex_rise :: candle where
  "ex_rise = \<lparr>date = DNumber 2, open' = 4, high = 8, low = 3, close = 7\<rparr>"

definition ex_fall :: candle where
  "ex_fall = \<lparr>date = DNumber 3, open' = 9, high = 9, low = 1, close = 1\<rparr>"

definition ex_new :: candle where
  "ex_new = \<lparr>date = DNumber (7 / 2), open' = 1, high = 4, low = 1, close = 3\<rparr>"

definition ex_series2 :: "candle series" where
  "ex_series2 = \<lparr>key = ''BTC'', values' = [ex_level, ex_rise, ex_fall, ex_new]\<rparr>"

definition ex_el_new :: candle_el where
  "ex_el_new = \<lparr>datum = ex_new, fill = Some ''green'', stroke = Some ''green'',
     high_low_line = Some [(350, 240), (350, 360)],
     open_close_bar = Some \<lparr>r_x = 347, r_y = 280, r_width = 6, r_height = 80\<rparr>\<rparr>"

definition ex_group2 :: group_el where
  "ex_group2 = \<lparr>g_class = ''candleSticks'', g_id = ''BTC'',
     g_candles = [ex_el_up\<lparr>datum := ex_level\<rparr>, ex_el_down\<lparr>datum := ex_rise\<rparr>,
                  ex_el_flat\<lparr>datum := ex_fall\<rparr>, ex_el_new]\<rparr>"

text \<open>
  A series whose dates are not whole numbers of milliseconds, for the truncation of
  \<open>new Date\<close>.
\<close>

definition ex_fraction :: "candle series" where
  "ex_fraction = \<lparr>key = ''F'', values' =
     [\<lparr>date = DNumber (3 / 2), open' = 2, high = 19 / 2, low = 3 / 2, close = 8\<rparr>,
      \<lparr>date = DNumber (5 / 2), open' = 8, high = 9, low = 4, close = 5\<rparr>]\<rparr>"

text \<open>
  A line chart input of one series with keys 1 and 2 (seconds), the same array after one
  call of \<open>init\<close> and after two, and the component after the first call. \<open>ex_dataParse\<close>
  stands for the result of \<open>dataParse\<close> on this input.
\<close>

definition ex_palette :: "string list" where
  "ex_palette = [''#1f77b4'', ''#ff7f0e'', ''#2ca02c'']"

definition ex_line :: "point series list" where
  "ex_line = [\<lparr>key = ''a'', values' = [\<lparr>pkey = KNumber 1, pvalue = 5\<rparr>,
                                        \<lparr>pkey = KNumber 2, pvalue = 7\<rparr>]\<rparr>]"

definition ex_line1 :: "point series list" where
  "ex_line1 = [\<lparr>key = ''a'', values' = [\<lparr>pkey = KDate (Some 1000), pvalue = 5\<rparr>,
                                         \<lparr>pkey = KDate (Some 2000), pvalue = 7\<rparr>]\<rparr>]"

definition ex_line2 :: "point series list" where
  "ex_line2 = [\<lparr>key = ''a'', values' = [\<lparr>pkey = KDate (Some 1000000), pvalue = 5\<rparr>,
                                         \<lparr>pkey = KDate (Some 2000000), pvalue = 7\<rparr>]\<rparr>]"

definition ex_dataParse :: "point series list \<Rightarrow> sliced" where
  "ex_dataParse data = \<lparr>maxValue = 7, groupNames = [''a'']\<rparr>"

definition ex_lineChart1 :: lineChart where
  "ex_lineChart1 = (lineChart ex_palette)
     \<lparr>lc_chartW := Some 340, lc_chartH := Some 240,
      lc_xScale := Some \<lparr>kind = Time, s_domain = (Some 1000, Some 2000), s_range = (0, 340)\<rparr>,
      lc_yScale := Some \<lparr>kind = Linear, s_domain = (Some 0, Some (147 / 20)), s_range = (240, 0)\<rparr>,
      lc_xAxis := Some \<lparr>orient = ''bottom'',
         a_scale = \<lparr>kind = Time, s_domain = (Some 1000, Some 2000), s_range = (0, 340)\<rparr>,
         tickFormat = Some ''%d-%b-%y''\<rparr>,
      lc_yAxis := Some \<lparr>orient = ''left'',
         a_scale = \<lparr>kind = Linear, s_domain = (Some 0, Some (147 / 20)), s_range = (240, 0)\<rparr>,
         tickFormat = None\<rparr>,
      lc_colorScale := Some \<lparr>o_domain = [''a''], o_range = ex_palette\<rparr>\<rparr>"

text \<open>
  A series whose keys are a fraction of a second that is no whole number of milliseconds
  (1/512 s is 1.953125 ms), another that is, a number of seconds beyond the range of
  dates, a date, and an invalid date.
\<close>

definition ex_keys :: "point series list" where
  "ex_keys = [\<lparr>key = ''k'', values' =
     [\<lparr>pkey = KNumber (1 / 512), pvalue = 1\<rparr>,
      \<lparr>pkey = KNumber (5 / 2), pvalue = 2\<rparr>,
      \<lparr>pkey = KNumber 10000000000000, pvalue = 3\<rparr>,
      \<lparr>pkey = KDate (Some 3), pvalue = 4\<rparr>,
      \<lparr>pkey = KDate None, pvalue = 5\<rparr>]\<rparr>]"

text \<open>
  Radial scales: a linear scale with the domain [0, 70] and its eight ticks over [0, 360],
  a band scale of four keys over [0, 180], a component with each, and the labels each
  draws.
\<close>

definition ex_linear :: radialScale where
  "ex_linear = RadialLinear [0, 70] (0, 360) [0, 10, 20, 30, 40, 50, 60, 70]"

definition ex_band :: radialScale where
  "ex_band = RadialBand [''N'', ''E'', ''S'', ''W''] (0, 180)"

definition ex_labels_linear :: circularLabels where
  "ex_labels_linear = circularLabels\<lparr>cl_radialScale := Some ex_linear\<rparr>"

definition ex_labels_band :: circularLabels where
  "ex_labels_band = circularLabels\<lparr>cl_radialScale := Some ex_band\<rparr>"

definition ex_linear_el :: "label list" where
  "ex_linear_el =
     [\<lparr>l_text = TNumber 0, l_offset = 0\<rparr>,
      \<lparr>l_text = TNumber 10, l_offset = 25 / 2\<rparr>,
      \<lparr>l_text = TNumber 20, l_offset = 25\<rparr>,
      \<lparr>l_text = TNumber 30, l_offset = 75 / 2\<rparr>,
      \<lparr>l_text = TNumber 40, l_offset = 50\<rparr>,
      \<lparr>l_text = TNumber 50, l_offset = 125 / 2\<rparr>,
      \<lparr>l_text = TNumber 60, l_offset = 75\<rparr>,
      \<lparr>l_text = TNumber 70, l_offset = 175 / 2\<rparr>]"

definition ex_band_el :: "label list" where
  "ex_band_el =
     [\<lparr>l_text = TString ''N'', l_offset = 0\<rparr>,
      \<lparr>l_text = TString ''E'', l_offset = 25 / 2\<rparr>,
      \<lparr>l_text = TString ''S'', l_offset = 25\<rparr>,
      \<lparr>l_text = TString ''W'', l_offset = 75 / 2\<rparr>]"



section \<open>The host library: facts\<close>

subsection \<open>d3.min, d3.max and d3.extent are the minimum and the maximum of the numbers\<close>

lemma js_gt_Some: "js_gt num a b \<longleftrightarrow> (\<exists>x y. num a = Some x \<and> num b = Some y \<and> x > y)"
  by (auto simp: js_gt_def split: option.splits)

lemma map_filter_map: "List.map_filter f (map g xs) = List.map_filter (\<lambda>x. f (g x)) xs"
  by (induction xs) (simp_all add: map_filter_simps split: option.splits)

lemma map_filter_total: "List.map_filter (\<lambda>x. Some (f x)) xs = map f xs"
  by (induction xs) (simp_all add: map_filter_simps)

lemma fold_min_mem:
  "fold (\<lambda>w m. if js_gt num m w then w else m) vs a \<in> set (a # vs)"
proof (induction vs arbitrary: a)
  case Nil
  then show ?case by simp
next
  case (Cons w vs)
  show ?case
  proof (cases "js_gt num a w")
    case True
    then show ?thesis using Cons[of w] by simp
  next
    case False
    then show ?thesis using Cons[of a] by auto
  qed
qed

lemma fold_min_val:
  "num a = Some x \<Longrightarrow>
     num (fold (\<lambda>w m. if js_gt num m w then w else m) vs a) =
       Some (Min (set (x # List.map_filter num vs)))"
proof (induction vs arbitrary: a x)
  case Nil
  then show ?case by simp
next
  case (Cons w vs)
  show ?case
  proof (cases "num w")
    case None
    then have g: "\<not> js_gt num a w" by (simp add: js_gt_def split: option.splits)
    have mf: "List.map_filter num (w # vs) = List.map_filter num vs"
      using None by (simp add: map_filter_simps)
    from Cons.IH[OF Cons.prems] show ?thesis
      unfolding mf using g by simp
  next
    case (Some z)
    have mf: "List.map_filter num (w # vs) = z # List.map_filter num vs"
      using Some by (simp add: map_filter_simps)
    have m: "Min (set (min x z # List.map_filter num vs)) =
             Min (set (x # z # List.map_filter num vs))"
      by (cases "List.map_filter num vs = []") (simp_all add: min.assoc)
    show ?thesis
    proof (cases "js_gt num a w")
      case True
      then have "min x z = z" using Some Cons.prems by (simp add: js_gt_def)
      then show ?thesis using Cons.IH[OF Some] True m unfolding mf by simp
    next
      case False
      then have "min x z = x" using Some Cons.prems by (simp add: js_gt_def)
      then show ?thesis using Cons.IH[OF Cons.prems] False m unfolding mf by simp
    qed
  qed
qed

lemma fold_min_gen:
  "num a = Some x \<Longrightarrow>
     fold (\<lambda>w m. if js_gt num m w then w else m) vs a \<in> set (a # vs) \<and>
     num (fold (\<lambda>w m. if js_gt num m w then w else m) vs a) =
       Some (Min (set (x # List.map_filter num vs)))"
  using fold_min_mem[of num vs a] fold_min_val[of num a x vs] by simp

lemma fold_max_mem:
  "fold (\<lambda>w m. if js_gt num w m then w else m) vs a \<in> set (a # vs)"
proof (induction vs arbitrary: a)
  case Nil
  then show ?case by simp
next
  case (Cons w vs)
  show ?case
  proof (cases "js_gt num w a")
    case True
    then show ?thesis using Cons[of w] by simp
  next
    case False
    then show ?thesis using Cons[of a] by auto
  qed
qed

lemma fold_max_val:
  "num a = Some x \<Longrightarrow>
     num (fold (\<lambda>w m. if js_gt num w m then w else m) vs a) =
       Some (Max (set (x # List.map_filter num vs)))"
proof (induction vs arbitrary: a x)
  case Nil
  then show ?case by simp
next
  case (Cons w vs)
  show ?case
  proof (cases "num w")
    case None
    then have g: "\<not> js_gt num w a" by (simp add: js_gt_def split: option.splits)
    have mf: "List.map_filter num (w # vs) = List.map_filter num vs"
      using None by (simp add: map_filter_simps)
    from Cons.IH[OF Cons.prems] show ?thesis
      unfolding mf using g by simp
  next
    case (Some z)
    have mf: "List.map_filter num (w # vs) = z # List.map_filter num vs"
      using Some by (simp add: map_filter_simps)
    have m: "Max (set (max x z # List.map_filter num vs)) =
             Max (set (x # z # List.map_filter num vs))"
      by (cases "List.map_filter num vs = []") (simp_all add: max.assoc)
    show ?thesis
    proof (cases "js_gt num w a")
      case True
      then have "max x z = z" using Some Cons.prems by (simp add: js_gt_def)
      then show ?thesis using Cons.IH[OF Some] True m unfolding mf by simp
    next
      case False
      then have "max x z = x" using Some Cons.prems by (simp add: js_gt_def)
      then show ?thesis using Cons.IH[OF Cons.prems] False m unfolding mf by simp
    qed
  qed
qed

lemma fold_max_gen:
  "num a = Some x \<Longrightarrow>
     fold (\<lambda>w m. if js_gt num w m then w else m) vs a \<in> set (a # vs) \<and>
     num (fold (\<lambda>w m. if js_gt num w m then w else m) vs a) =
       Some (Max (set (x # List.map_filter num vs)))"
  using fold_max_mem[of num vs a] fold_max_val[of num a x vs] by simp

lemma d3_min_gen:
  "d3_min num vs =
     (if List.map_filter num vs = [] then None else d3_min num vs) \<and>
   (List.map_filter num vs \<noteq> [] \<longrightarrow>
      (\<exists>e\<in>set vs. d3_min num vs = Some e \<and> num e = Some (Min (set (List.map_filter num vs)))))"
proof (induction vs)
  case Nil
  then show ?case by (simp add: map_filter_simps)
next
  case (Cons v vs)
  show ?case
  proof (cases "num v")
    case None
    then show ?thesis using Cons by (auto simp: map_filter_simps)
  next
    case (Some x)
    from fold_min_gen[of num v x vs, OF Some] show ?thesis
      using Some by (auto simp: map_filter_simps)
  qed
qed

lemma d3_max_gen:
  "d3_max num vs =
     (if List.map_filter num vs = [] then None else d3_max num vs) \<and>
   (List.map_filter num vs \<noteq> [] \<longrightarrow>
      (\<exists>e\<in>set vs. d3_max num vs = Some e \<and> num e = Some (Max (set (List.map_filter num vs)))))"
proof (induction vs)
  case Nil
  then show ?case by (simp add: map_filter_simps)
next
  case (Cons v vs)
  show ?case
  proof (cases "num v")
    case None
    then show ?thesis using Cons by (auto simp: map_filter_simps)
  next
    case (Some x)
    from fold_max_gen[of num v x vs, OF Some] show ?thesis
      using Some by (auto simp: map_filter_simps)
  qed
qed

lemma d3_min_None: "List.map_filter num vs = [] \<Longrightarrow> d3_min num vs = None"
  using d3_min_gen[of num vs] by simp

lemma d3_max_None: "List.map_filter num vs = [] \<Longrightarrow> d3_max num vs = None"
  using d3_max_gen[of num vs] by simp

lemma d3_min_Some:
  "List.map_filter num vs \<noteq> [] \<Longrightarrow>
     \<exists>e\<in>set vs. d3_min num vs = Some e \<and> num e = Some (Min (set (List.map_filter num vs)))"
  using d3_min_gen[of num vs] by simp

lemma d3_max_Some:
  "List.map_filter num vs \<noteq> [] \<Longrightarrow>
     \<exists>e\<in>set vs. d3_max num vs = Some e \<and> num e = Some (Max (set (List.map_filter num vs)))"
  using d3_max_gen[of num vs] by simp

lemma d3_min_reals: "xs \<noteq> [] \<Longrightarrow> d3_min Some xs = Some (Min (set xs))"
  using d3_min_Some[of Some xs] by (auto simp: map_filter_total[of "\<lambda>x. x", simplified])

lemma d3_max_reals: "xs \<noteq> [] \<Longrightarrow> d3_max Some xs = Some (Max (set xs))"
  using d3_max_Some[of Some xs] by (auto simp: map_filter_total[of "\<lambda>x. x", simplified])

lemma fold_extent:
  "fold (\<lambda>w (lo, hi). (if js_gt num lo w then w else lo, if js_gt num w hi then w else hi)) vs (a, b) =
     (fold (\<lambda>w m. if js_gt num m w then w else m) vs a,
      fold (\<lambda>w m. if js_gt num w m then w else m) vs b)"
  by (induction vs arbitrary: a b) (simp_all)

lemma d3_extent_min_max: "d3_extent num vs = (d3_min num vs, d3_max num vs)"
  by (induction vs) (simp_all add: fold_extent split: option.splits)

subsection \<open>Ordinal scales: a key keeps its value\<close>

lemma extends_refl: "extends sc sc"
  unfolding extends_def by (rule exI[of _ "[]"]) simp

lemma extends_trans: "extends a b \<Longrightarrow> extends b c \<Longrightarrow> extends a c"
  unfolding extends_def by auto

lemma index_of_None: "index_of k xs = None \<longleftrightarrow> k \<notin> set xs"
  by (induction xs) auto

lemma index_of_append: "index_of k xs = Some i \<Longrightarrow> index_of k (xs @ ys) = Some i"
  by (induction xs arbitrary: i) (auto split: if_splits)

lemma index_of_snoc: "k \<notin> set xs \<Longrightarrow> index_of k (xs @ [k]) = Some (Suc (length xs))"
  by (induction xs) auto

lemma ordinal_call_extends: "extends sc (snd (ordinal_call sc k))"
  unfolding extends_def ordinal_call_def
  by (cases "index_of k (o_domain sc)") (auto simp: Let_def intro: exI[of _ "[]"])

lemma ordinal_call_mem: "k \<in> set (o_domain (snd (ordinal_call sc k)))"
  using index_of_None[of k "o_domain sc"] unfolding ordinal_call_def
  by (cases "index_of k (o_domain sc)") (auto simp: Let_def)

lemma ordinal_call_known:
  "k \<in> set (o_domain sc) \<Longrightarrow> snd (ordinal_call sc k) = sc"
  unfolding ordinal_call_def
  by (cases "index_of k (o_domain sc)") (auto simp: index_of_None)

lemma ordinal_call_stable:
  assumes "k \<in> set (o_domain sc)" and "extends sc sc'"
  shows "fst (ordinal_call sc' k) = fst (ordinal_call sc k)"
proof -
  from assms(1) obtain i where i: "index_of k (o_domain sc) = Some i"
    using index_of_None[of k "o_domain sc"] by (cases "index_of k (o_domain sc)") auto
  from assms(2) obtain more where m: "sc' = sc\<lparr>o_domain := o_domain sc @ more\<rparr>"
    unfolding extends_def by blast
  show ?thesis using i index_of_append[OF i, of more] by (simp add: ordinal_call_def m)
qed

lemma ordinal_call_settled:
  assumes "extends (snd (ordinal_call sc k)) sc'"
  shows "fst (ordinal_call sc' k) = fst (ordinal_call sc k)"
proof (cases "index_of k (o_domain sc)")
  case (Some i)
  then have "k \<in> set (o_domain sc)" using index_of_None[of k "o_domain sc"] by auto
  then show ?thesis using assms ordinal_call_known[of k sc] ordinal_call_stable by metis
next
  case None
  then have nin: "k \<notin> set (o_domain sc)" by (simp add: index_of_None)
  let ?s1 = "snd (ordinal_call sc k)"
  have s1: "?s1 = sc\<lparr>o_domain := o_domain sc @ [k]\<rparr>" using None by (simp add: ordinal_call_def)
  have "fst (ordinal_call sc' k) = fst (ordinal_call ?s1 k)"
    using ordinal_call_stable[OF ordinal_call_mem assms] .
  also have "\<dots> = fst (ordinal_call sc k)"
    using None index_of_snoc[OF nin] by (simp add: s1 ordinal_call_def)
  finally show ?thesis .
qed

lemma ordinal_calls_props:
  "ordinal_calls sc ks = (vs, sc') \<Longrightarrow>
     extends sc sc' \<and> length vs = length ks \<and>
     (\<forall>i<length ks. \<forall>sc''. extends sc' sc'' \<longrightarrow> vs ! i = fst (ordinal_call sc'' (ks ! i)))"
proof (induction ks arbitrary: sc vs sc')
  case Nil
  then show ?case by (simp add: extends_refl)
next
  case (Cons k ks)
  obtain v sc1 where c1: "ordinal_call sc k = (v, sc1)" by (cases "ordinal_call sc k")
  obtain ws sc2 where c2: "ordinal_calls sc1 ks = (ws, sc2)" by (cases "ordinal_calls sc1 ks")
  from Cons.prems c1 c2 have vs: "vs = v # ws" and sc': "sc' = sc2" by auto
  from Cons.IH[OF c2] have e12: "extends sc1 sc2" and len: "length ws = length ks"
    and rest: "\<forall>i<length ks. \<forall>sc''. extends sc2 sc'' \<longrightarrow> ws ! i = fst (ordinal_call sc'' (ks ! i))"
    by auto
  have e01: "extends sc sc1" using ordinal_call_extends[of sc k] c1 by simp
  have hd: "\<forall>sc''. extends sc2 sc'' \<longrightarrow> v = fst (ordinal_call sc'' k)"
  proof (intro allI impI)
    fix sc'' assume "extends sc2 sc''"
    then have "extends (snd (ordinal_call sc k)) sc''" using e12 c1 extends_trans by fastforce
    from ordinal_call_settled[OF this] show "v = fst (ordinal_call sc'' k)" using c1 by simp
  qed
  show ?case
  proof (intro conjI allI impI)
    show "extends sc sc'" using e01 e12 sc' extends_trans by blast
    show "length vs = length (k # ks)" using vs len by simp
  next
    fix i sc'' assume i: "i < length (k # ks)" and e: "extends sc' sc''"
    show "vs ! i = fst (ordinal_call sc'' ((k # ks) ! i))"
    proof (cases i)
      case 0
      then show ?thesis using hd e sc' vs by simp
    next
      case (Suc j)
      then show ?thesis using rest e sc' vs i by simp
    qed
  qed
qed

lemma ordinal_calls_known:
  "set ks \<subseteq> set (o_domain sc) \<Longrightarrow>
     ordinal_calls sc ks = (map (\<lambda>k. fst (ordinal_call sc k)) ks, sc)"
proof (induction ks)
  case Nil
  then show ?case by simp
next
  case (Cons k ks)
  then have "snd (ordinal_call sc k) = sc" by (simp add: ordinal_call_known)
  then show ?case using Cons by (simp add: split_beta)
qed

section \<open>candleSticks: a call of the component\<close>

lemma cs_init_Some:
  "cs_init nice parse fl st (Some s) = Inr st1 \<Longrightarrow>
     cs_xScale st1 \<noteq> None \<and> cs_yScale st1 \<noteq> None \<and> cs_colorScale st1 \<noteq> None \<and>
     cs_candleWidth st1 = cs_candleWidth st \<and> cs_classed st1 = cs_classed st"
  by (auto simp: cs_init_def Let_def)

lemma cs_my_Nil: "cs_my nice parse fl ap st [] = Inl TypeError"
  by (simp add: cs_my_def cs_init_def)

lemma cs_my_Cons:
  assumes "cs_init nice parse fl st (Some (fst el)) = Inr st1"
    and "cs_xScale st1 = Some xS" and "cs_yScale st1 = Some yS" and "cs_colorScale st1 = Some cS"
    and "cs_groups ap st1 xS yS cS (el # rest) = (gs, c')"
  shows "cs_my nice parse fl ap st (el # rest) = Inr (st1\<lparr>cs_colorScale := Some c'\<rparr>, gs)"
  unfolding cs_my_def using assms by simp

text \<open>A call on a selection that is not empty returns.\<close>

lemma cs_my_returns:
  "\<exists>st1 xS yS cS out c'. cs_init nice parse fl st (Some (fst el)) = Inr st1 \<and>
     cs_xScale st1 = Some xS \<and> cs_yScale st1 = Some yS \<and> cs_colorScale st1 = Some cS \<and>
     cs_my nice parse fl ap st (el # rest) = Inr (st1\<lparr>cs_colorScale := Some c'\<rparr>, out)"
proof -
  obtain st1 where i: "cs_init nice parse fl st (Some (fst el)) = Inr st1"
    by (simp add: cs_init_def Let_def)
  from cs_init_Some[OF i] obtain xS yS cS where
    sc: "cs_xScale st1 = Some xS" "cs_yScale st1 = Some yS" "cs_colorScale st1 = Some cS"
    by blast
  obtain gs c' where gr: "cs_groups ap st1 xS yS cS (el # rest) = (gs, c')"
    by (cases "cs_groups ap st1 xS yS cS (el # rest)")
  from cs_my_Cons[OF i sc gr] i sc show ?thesis by blast
qed

lemma cs_init_computed:
  assumes "cs_xScale st = None" and "cs_yScale st = None"
    and "cs_init nice parse fl st (Some s) = Inr st1"
  shows "cs_xScale st1 = Some \<lparr>kind = Time,
            s_domain = (xDomain_lower fl (d3_min (\<lambda>d. Some (dateValue d)) (map date (values' s))),
                        xDomain_upper parse fl
                          (d3_max (\<lambda>d. Some (dateValue d)) (map date (values' s)))),
            s_range = (0, cs_width st)\<rparr>"
    and "cs_yScale st1 = Some \<lparr>kind = Linear,
            s_domain = nice (d3_min Some (map low (values' s)), d3_max Some (map high (values' s))),
            s_range = (cs_height st, 0)\<rparr>"
  using assms by (auto simp: cs_init_def Let_def)


subsection \<open>The default colour scale\<close>

lemma default_colorScale:
  "cs_colorScale candleSticks = Some \<lparr>o_domain = [True, False], o_range = [''green'', ''red'']\<rparr>"
  by (simp add: candleSticks_def scaleOrdinal_def)

lemma default_call:
  "ordinal_call \<lparr>o_domain = [True, False], o_range = [''green'', ''red'']\<rparr> b =
     (Some (if b then ''green'' else ''red''),
      \<lparr>o_domain = [True, False], o_range = [''green'', ''red'']\<rparr>)"
  by (cases b) (simp_all add: ordinal_call_def range_at_def)

subsection \<open>A candle group that is already there\<close>

text \<open>
  A candle group that has its two children and a datum at its index leaves a render as it
  came, but for the datum bound to it: fill, stroke, line and bar are not assigned again.
\<close>

lemma highLowLines_there: "high_low_line bar \<noteq> None \<Longrightarrow> highLowLines ap xS yS bar = bar"
  by (auto simp: highLowLines_def)

lemma openCloseBars_there: "open_close_bar bar \<noteq> None \<Longrightarrow> openCloseBars ap xS yS cw bar = bar"
  by (auto simp: openCloseBars_def)

lemma cs_each_updated:
  assumes "i < length (g_candles g)" and "i < length (values' d)"
    and "high_low_line (g_candles g ! i) \<noteq> None" and "open_close_bar (g_candles g ! i) \<noteq> None"
  shows "g_candles (fst (cs_each ap st xS yS cS (d, g))) ! i =
           (g_candles g ! i)\<lparr>datum := values' d ! i\<rparr>"
proof -
  let ?c = "(g_candles g ! i)\<lparr>datum := values' d ! i\<rparr>"
  have h: "highLowLines ap xS yS ?c = ?c" using assms(3) by (simp add: highLowLines_there)
  have b: "openCloseBars ap xS yS (cs_candleWidth st) ?c = ?c"
    using assms(4) by (simp add: openCloseBars_there)
  show ?thesis using assms(1,2) h b
    by (simp add: cs_each_def Let_def split_beta nth_append)
qed

text \<open>A candle group beyond the data stays in the series group.\<close>

lemma cs_each_exit:
  assumes "length (values' d) \<le> i" and "i < length (g_candles g)"
  shows "length (g_candles (fst (cs_each ap st xS yS cS (d, g)))) = length (g_candles g) \<and>
         g_candles (fst (cs_each ap st xS yS cS (d, g))) ! i = g_candles g ! i"
  using assms by (simp add: cs_each_def Let_def split_beta nth_append)

subsection \<open>A candle group that enters\<close>

text \<open>
  A datum beyond the candle groups that are there gets a new candle group, drawn from the
  datum: fill and stroke are the value of the colour scale at \<open>isUpDay\<close> (the colour
  scale as it is after the render: a key keeps its value), the line runs from the high to
  the low, and the bar has the geometry of the up-day or of the other branch.
\<close>

lemma cs_each_entering:
  assumes e: "cs_each ap st xS yS cS (d, g) = (g', c2)"
    and lo: "length (g_candles g) \<le> i" and hi: "i < length (values' d)"
  shows "g_candles g' ! i =
     \<lparr>datum = values' d ! i,
      fill = fst (ordinal_call c2 (isUpDay (values' d ! i))),
      stroke = fst (ordinal_call c2 (isUpDay (values' d ! i))),
      high_low_line =
        Some [(ap xS (dateValue (date (values' d ! i))), ap yS (high (values' d ! i))),
              (ap xS (dateValue (date (values' d ! i))), ap yS (low (values' d ! i)))],
      open_close_bar =
        Some \<lparr>r_x = ap xS (dateValue (date (values' d ! i))) - cs_candleWidth st,
              r_y = (if close (values' d ! i) > open' (values' d ! i)
                     then ap yS (close (values' d ! i)) else ap yS (open' (values' d ! i))),
              r_width = cs_candleWidth st * 2,
              r_height = (if close (values' d ! i) > open' (values' d ! i)
                          then ap yS (open' (values' d ! i)) - ap yS (close (values' d ! i))
                          else ap yS (close (values' d ! i)) - ap yS (open' (values' d ! i)))\<rparr>\<rparr>"
proof -
  let ?old = "g_candles g"
  let ?vs = "values' d"
  let ?entering = "drop (length ?old) ?vs"
  let ?ups = "map isUpDay ?entering"
  let ?j = "i - length ?old"
  let ?F = "\<lambda>bar. openCloseBars ap xS yS (cs_candleWidth st) (highLowLines ap xS yS bar)"
  let ?mk = "\<lambda>(v, f, s). \<lparr>datum = v, fill = f, stroke = s,
                           high_low_line = None, open_close_bar = None\<rparr>"
  let ?update = "map (\<lambda>(c, v). c\<lparr>datum := v\<rparr>) (zip ?old ?vs)"
  obtain fills c1 where f: "ordinal_calls cS ?ups = (fills, c1)" by (cases "ordinal_calls cS ?ups")
  obtain strokes c2' where s: "ordinal_calls c1 ?ups = (strokes, c2')"
    by (cases "ordinal_calls c1 ?ups")
  note pf = ordinal_calls_props[OF f] and ps = ordinal_calls_props[OF s]
  let ?enter = "map ?mk (zip ?entering (zip fills strokes))"
  have eq: "cs_each ap st xS yS cS (d, g) =
      (\<lparr>g_class = cs_classed st, g_id = key d,
        g_candles = map ?F (?update @ ?enter) @ drop (length ?vs) ?old\<rparr>, c2')"
    by (simp add: cs_each_def f s Let_def)
  from e eq have c2: "c2' = c2"
    and g': "g_candles g' = map ?F (?update @ ?enter) @ drop (length ?vs) ?old"
    by auto
  have lu: "length ?update = length ?old" using lo hi by simp
  have le: "length ?entering = length ?vs - length ?old" by simp
  have lf: "length fills = length ?entering" and ls: "length strokes = length ?entering"
    using pf ps by simp_all
  have j: "?j < length ?entering" using lo hi by simp
  have len: "length ?enter = length ?entering" using lf ls by simp
  have ej: "?entering ! ?j = ?vs ! i" using lo hi by simp
  have "extends c1 c2" using ps c2 by simp
  then have fj: "fills ! ?j = fst (ordinal_call c2 (isUpDay (?vs ! i)))"
    using pf j ej by (metis length_map nth_map)
  have "extends c2 c2" by (rule extends_refl)
  then have sj: "strokes ! ?j = fst (ordinal_call c2 (isUpDay (?vs ! i)))"
    using ps c2 j ej by (metis length_map nth_map)
  have "?enter ! ?j = ?mk (?entering ! ?j, fills ! ?j, strokes ! ?j)"
    using j lf ls by simp
  then have en: "?enter ! ?j = \<lparr>datum = ?vs ! i,
      fill = fst (ordinal_call c2 (isUpDay (?vs ! i))),
      stroke = fst (ordinal_call c2 (isUpDay (?vs ! i))),
      high_low_line = None, open_close_bar = None\<rparr>"
    using ej fj sj by simp
  have iu: "i < length (?update @ ?enter)" using lu len le lo hi by simp
  have "g_candles g' ! i = ?F ((?update @ ?enter) ! i)"
    unfolding g' using iu by (simp add: nth_append del: map_append)
  also have "(?update @ ?enter) ! i = ?enter ! ?j" using lu lo by (simp add: nth_append)
  finally show ?thesis
    unfolding en by (simp add: highLowLines_def openCloseBars_def isUpDay_def Let_def)
qed

subsection \<open>The example: a first render and a second one\<close>

lemma ex_first_render:
  "cs_my ex_nice ex_parse ex_fl linear_ap ex_chart [(ex_series, empty_group)] =
     Inr (ex_chart, [ex_group])"
  by (simp add: cs_my_def cs_init_def ex_chart_def ex_series_def cs_each_def empty_group_def
      default_call ex_up_def ex_down_def ex_flat_def isUpDay_def ex_group_def ex_el_up_def
      ex_el_down_def ex_el_flat_def highLowLines_def openCloseBars_def linear_ap_def
      ex_xScale_def ex_yScale_def candleSticks_def scaleOrdinal_def)

lemma ex_second_render:
  "cs_my ex_nice ex_parse ex_fl linear_ap ex_chart [(ex_series2, ex_group)] =
     Inr (ex_chart, [ex_group2])"
  by (simp add: cs_my_def cs_init_def ex_chart_def ex_series2_def cs_each_def ex_group2_def
      default_call ex_level_def ex_rise_def ex_fall_def ex_new_def isUpDay_def ex_group_def
      ex_el_up_def ex_el_down_def ex_el_flat_def ex_el_new_def highLowLines_def
      openCloseBars_def linear_ap_def ex_xScale_def ex_yScale_def candleSticks_def
      scaleOrdinal_def)

text \<open>Rendering the first series again into the group it was rendered into changes nothing.\<close>

lemma ex_same_render:
  "cs_my ex_nice ex_parse ex_fl linear_ap ex_chart [(ex_series, ex_group)] =
     Inr (ex_chart, [ex_group])"
  by (simp add: cs_my_def cs_init_def ex_chart_def ex_series_def cs_each_def
      default_call ex_up_def ex_down_def ex_flat_def isUpDay_def ex_group_def ex_el_up_def
      ex_el_down_def ex_el_flat_def highLowLines_def openCloseBars_def linear_ap_def
      ex_xScale_def ex_yScale_def candleSticks_def scaleOrdinal_def)

text \<open>
  Fewer data than candle groups: the series shrunk to its first candle, rendered into the
  group of three, leaves all three candle groups.
\<close>

lemma ex_shrunk_render:
  "cs_my ex_nice ex_parse ex_fl linear_ap ex_chart [(ex_series\<lparr>values' := [ex_up]\<rparr>, ex_group)] =
     Inr (ex_chart, [ex_group])"
  by (simp add: cs_my_def cs_init_def ex_chart_def ex_series_def cs_each_def
      default_call ex_up_def ex_down_def ex_flat_def isUpDay_def ex_group_def ex_el_up_def
      ex_el_down_def ex_el_flat_def highLowLines_def openCloseBars_def linear_ap_def
      ex_xScale_def ex_yScale_def candleSticks_def scaleOrdinal_def)

subsection \<open>Up days and colours\<close>

text \<open>
  Claim C1 does not hold of the code. The example series is rendered into an empty series
  group, then the second series into the same group. The second candle group was appended
  for a down day and coloured red; in the second render it gets an up day bound
  (close 7 > open 4) and keeps fill and stroke red, while the colour scale of the
  component gives green for an up day. Fill and stroke are assigned to entering candle
  groups only.
\<close>

theorem candle_keeps_colour_of_first_datum:
  "cs_my ex_nice ex_parse ex_fl linear_ap ex_chart [(ex_series, empty_group)] =
     Inr (ex_chart, [ex_group]) \<and>
   cs_my ex_nice ex_parse ex_fl linear_ap ex_chart [(ex_series2, ex_group)] =
     Inr (ex_chart, [ex_group2]) \<and>
   datum (g_candles ex_group2 ! 1) = ex_rise \<and>
   close ex_rise = 7 \<and> open' ex_rise = 4 \<and> isUpDay ex_rise \<and>
   fill (g_candles ex_group2 ! 1) = Some ''red'' \<and>
   stroke (g_candles ex_group2 ! 1) = Some ''red'' \<and>
   map_option (\<lambda>c. fst (ordinal_call c (isUpDay ex_rise))) (cs_colorScale ex_chart) =
     Some (Some ''green'')"
  by (simp add: ex_first_render ex_second_render)
     (simp add: ex_group2_def ex_el_down_def ex_rise_def isUpDay_def ex_chart_def
        default_colorScale default_call)

subsection \<open>The open-close bar\<close>

text \<open>
  Claim C8 does not hold of the code. In the same two renders the third candle group,
  appended for a day with open = close = 5, gets a down day with open 9 and close 1
  bound. Its bar keeps y = 200 and height = 0, while by the down-day branch
  y = yScale(open) = 40 and height = yScale(close) - yScale(open) = 320. The bar is given
  its geometry when it is appended, and a candle group that has a bar gets no other.
\<close>

theorem bar_keeps_geometry_of_first_datum:
  "cs_my ex_nice ex_parse ex_fl linear_ap ex_chart [(ex_series, empty_group)] =
     Inr (ex_chart, [ex_group]) \<and>
   cs_my ex_nice ex_parse ex_fl linear_ap ex_chart [(ex_series2, ex_group)] =
     Inr (ex_chart, [ex_group2]) \<and>
   datum (g_candles ex_group2 ! 2) = ex_fall \<and>
   open' ex_fall = 9 \<and> close ex_fall = 1 \<and> \<not> isUpDay ex_fall \<and>
   open_close_bar (g_candles ex_group2 ! 2) =
     Some \<lparr>r_x = 297, r_y = 200, r_width = 6, r_height = 0\<rparr> \<and>
   cs_yScale ex_chart = Some ex_yScale \<and>
   linear_ap ex_yScale (open' ex_fall) = 40 \<and>
   linear_ap ex_yScale (close ex_fall) - linear_ap ex_yScale (open' ex_fall) = 320"
  by (simp add: ex_first_render ex_second_render)
     (simp add: ex_group2_def ex_el_flat_def ex_fall_def isUpDay_def ex_chart_def
        linear_ap_def ex_yScale_def)

subsection \<open>A day that closes where it opened\<close>

text \<open>
  Claim C10 does not hold of the code. A datum with close = open is not an up day, and a
  candle group appended for it is red with a bar of height 0 (the third candle of the
  first render). But in the second render the first candle group, appended for an up day,
  gets a datum with close = open = 6 bound and stays green, with a bar of height 240.
\<close>

theorem flat_day_keeps_up_day_candle:
  "cs_my ex_nice ex_parse ex_fl linear_ap ex_chart [(ex_series, empty_group)] =
     Inr (ex_chart, [ex_group]) \<and>
   datum (g_candles ex_group ! 2) = ex_flat \<and> close ex_flat = open' ex_flat \<and>
   fill (g_candles ex_group ! 2) = Some ''red'' \<and>
   map_option r_height (open_close_bar (g_candles ex_group ! 2)) = Some 0 \<and>
   cs_my ex_nice ex_parse ex_fl linear_ap ex_chart [(ex_series2, ex_group)] =
     Inr (ex_chart, [ex_group2]) \<and>
   datum (g_candles ex_group2 ! 0) = ex_level \<and>
   close ex_level = open' ex_level \<and> \<not> isUpDay ex_level \<and>
   fill (g_candles ex_group2 ! 0) = Some ''green'' \<and>
   stroke (g_candles ex_group2 ! 0) = Some ''green'' \<and>
   map_option r_height (open_close_bar (g_candles ex_group2 ! 0)) = Some 240 \<and>
   map_option (\<lambda>c. fst (ordinal_call c (isUpDay ex_level))) (cs_colorScale ex_chart) =
     Some (Some ''red'')"
  by (simp add: ex_first_render ex_second_render)
     (simp add: ex_group_def ex_group2_def ex_el_up_def ex_el_flat_def ex_flat_def
        ex_level_def isUpDay_def ex_chart_def default_colorScale default_call)

subsection \<open>The colors setter\<close>

lemma cs_each_colors:
  "cs_each ap (st\<lparr>cs_colors := cols\<rparr>) xS yS cS el = cs_each ap st xS yS cS el"
  by (simp add: cs_each_def)

lemma cs_groups_colors:
  "cs_groups ap (st\<lparr>cs_colors := cols\<rparr>) xS yS cS els = cs_groups ap st xS yS cS els"
  by (induction els arbitrary: cS) (simp_all add: cs_each_colors)

lemma cs_init_colors:
  assumes "cs_colorScale st \<noteq> None"
  shows "cs_init nice parse fl (st\<lparr>cs_colors := cols\<rparr>) data =
           (case cs_init nice parse fl st data of
              Inl e \<Rightarrow> Inl e
            | Inr st1 \<Rightarrow> Inr (st1\<lparr>cs_colors := cols\<rparr>))"
  using assms by (cases data) (auto simp: cs_init_def Let_def split: option.splits)

text \<open>
  Claim C9. On a component whose colour scale is set (as it is from construction on),
  \<open>my.colors(newColors)\<close> stores the array, which the getter then returns, and leaves the
  colour scale alone; a render after it, of any selection, whatever the series groups
  hold already, draws exactly what it would have drawn without the call, the component
  differing in the stored colours only.
\<close>

theorem colors_setter_does_not_recolour:
  assumes "cs_colorScale st \<noteq> None"
  shows "fst (cs_my_colors None (snd (cs_my_colors (Some newColors) st))) = Value newColors \<and>
         cs_colorScale (snd (cs_my_colors (Some newColors) st)) = cs_colorScale st \<and>
         cs_my nice parse fl ap (snd (cs_my_colors (Some newColors) st)) selection =
           (case cs_my nice parse fl ap st selection of
              Inl e \<Rightarrow> Inl e
            | Inr (st', out) \<Rightarrow> Inr (st'\<lparr>cs_colors := newColors\<rparr>, out))"
proof -
  let ?d = "case selection of [] \<Rightarrow> None | el # _ \<Rightarrow> Some (fst el)"
  have s: "snd (cs_my_colors (Some newColors) st) = st\<lparr>cs_colors := newColors\<rparr>"
    by (simp add: cs_my_colors_def)
  have g: "fst (cs_my_colors None (st\<lparr>cs_colors := newColors\<rparr>)) = Value newColors"
    by (simp add: cs_my_colors_def)
  have m: "cs_my nice parse fl ap (st\<lparr>cs_colors := newColors\<rparr>) selection =
           (case cs_my nice parse fl ap st selection of
              Inl e \<Rightarrow> Inl e
            | Inr (st', out) \<Rightarrow> Inr (st'\<lparr>cs_colors := newColors\<rparr>, out))"
  proof (cases "cs_init nice parse fl st ?d")
    case (Inl e)
    then show ?thesis by (simp add: cs_my_def cs_init_colors[OF assms])
  next
    case (Inr st1)
    then show ?thesis
      by (simp add: cs_my_def cs_init_colors[OF assms] cs_groups_colors split_beta
          split: option.splits)
  qed
  show ?thesis using s g m by simp
qed

text \<open>
  The freshly constructed component has a colour scale; after \<open>colors([blue, orange])\<close> the
  example is still drawn green and red, in the first render and in the second.
\<close>

theorem colors_setter_does_not_recolour_witness:
  "cs_colorScale candleSticks \<noteq> None \<and> cs_colorScale ex_chart \<noteq> None \<and>
   fst (cs_my_colors None (snd (cs_my_colors (Some [''blue'', ''orange'']) candleSticks))) =
     Value [''blue'', ''orange''] \<and>
   cs_my ex_nice ex_parse ex_fl linear_ap (snd (cs_my_colors (Some [''blue'', ''orange'']) ex_chart))
       [(ex_series, empty_group)] =
     Inr (ex_chart\<lparr>cs_colors := [''blue'', ''orange'']\<rparr>, [ex_group]) \<and>
   cs_my ex_nice ex_parse ex_fl linear_ap (snd (cs_my_colors (Some [''blue'', ''orange'']) ex_chart))
       [(ex_series2, ex_group)] =
     Inr (ex_chart\<lparr>cs_colors := [''blue'', ''orange'']\<rparr>, [ex_group2]) \<and>
   fill ex_el_up = Some ''green'' \<and> fill ex_el_down = Some ''red'' \<and>
   fill ex_el_new = Some ''green''"
proof -
  have a: "cs_colorScale candleSticks \<noteq> None" by (simp add: candleSticks_def)
  have b: "cs_colorScale ex_chart \<noteq> None" by (simp add: ex_chart_def candleSticks_def)
  from colors_setter_does_not_recolour[OF a, of "[''blue'', ''orange'']" ex_nice ex_parse ex_fl
        linear_ap "[]"]
    colors_setter_does_not_recolour[OF b, of "[''blue'', ''orange'']" ex_nice ex_parse ex_fl
        linear_ap "[(ex_series, empty_group)]"]
    colors_setter_does_not_recolour[OF b, of "[''blue'', ''orange'']" ex_nice ex_parse ex_fl
        linear_ap "[(ex_series2, ex_group)]"]
  show ?thesis using a b
    by (simp add: ex_first_render ex_second_render ex_el_up_def ex_el_down_def ex_el_new_def)
qed

subsection \<open>The computed scales\<close>

lemma newDate_int:
  "\<bar>n\<bar> \<le> 8640000000000000 \<Longrightarrow> newDate (Some (of_int n)) = Some (of_int n)"
proof -
  assume a: "\<bar>n\<bar> \<le> 8640000000000000"
  have "\<bar>real_of_int n\<bar> = real_of_int \<bar>n\<bar>" by simp
  also have "\<dots> \<le> real_of_int 8640000000000000" using a by (subst of_int_le_iff)
  finally have "\<not> \<bar>real_of_int n\<bar> > 8640000000000000" by simp
  then show ?thesis by (simp add: newDate_def)
qed

lemma d3_min_dates:
  assumes "ds \<noteq> []"
  shows "\<exists>e\<in>set ds. d3_min (\<lambda>d. Some (dateValue d)) ds = Some e \<and>
           dateValue e = Min (dateValue ` set ds)"
  using d3_min_Some[of "\<lambda>d. Some (dateValue d)" ds] assms
  by (simp add: map_filter_total)

lemma d3_max_dates:
  assumes "ds \<noteq> []"
  shows "\<exists>e\<in>set ds. d3_max (\<lambda>d. Some (dateValue d)) ds = Some e \<and>
           dateValue e = Max (dateValue ` set ds)"
  using d3_max_Some[of "\<lambda>d. Some (dateValue d)" ds] assms
  by (simp add: map_filter_total)

text \<open>
  The x domain that \<open>init\<close> computes from a series with at least one value. The lower
  bound is the date of the least time value less a day. The upper bound is the date of
  the greatest time value plus a day when the dates are numbers; when the greatest date
  is a \<open>Date\<close> object it is what the host makes of a string.
\<close>

lemma xDomain_bounds:
  assumes "vs \<noteq> []"
  shows "xDomain_lower fl (d3_min (\<lambda>d. Some (dateValue d)) (map date vs)) =
           newDate (Some (fl (Min (dateValue ` date ` set vs) - 86400000)))"
    and "\<forall>d\<in>set vs. \<exists>x. date d = DNumber x \<Longrightarrow>
           xDomain_upper parse fl (d3_max (\<lambda>d. Some (dateValue d)) (map date vs)) =
             newDate (Some (fl (Max (dateValue ` date ` set vs) + 86400000)))"
    and "\<forall>d\<in>set vs. \<exists>t. date d = DDate t \<Longrightarrow>
           xDomain_upper parse fl (d3_max (\<lambda>d. Some (dateValue d)) (map date vs)) =
             parse (Max (dateValue ` date ` set vs))"
proof -
  have ne: "map date vs \<noteq> []" using assms by simp
  from d3_min_dates[OF ne] obtain e where
    e: "d3_min (\<lambda>d. Some (dateValue d)) (map date vs) = Some e"
       "dateValue e = Min (dateValue ` date ` set vs)" by auto
  show "xDomain_lower fl (d3_min (\<lambda>d. Some (dateValue d)) (map date vs)) =
           newDate (Some (fl (Min (dateValue ` date ` set vs) - 86400000)))"
    using e by (simp add: xDomain_lower_def)
  from d3_max_dates[OF ne] obtain m where
    m: "m \<in> set (map date vs)" "d3_max (\<lambda>d. Some (dateValue d)) (map date vs) = Some m"
       "dateValue m = Max (dateValue ` date ` set vs)" by auto
  show "xDomain_upper parse fl (d3_max (\<lambda>d. Some (dateValue d)) (map date vs)) =
             newDate (Some (fl (Max (dateValue ` date ` set vs) + 86400000)))"
    if "\<forall>d\<in>set vs. \<exists>x. date d = DNumber x"
  proof -
    from m(1) that obtain x where "m = DNumber x" by auto
    then show ?thesis using m(2,3) by (simp add: xDomain_upper_def)
  qed
  show "xDomain_upper parse fl (d3_max (\<lambda>d. Some (dateValue d)) (map date vs)) =
             parse (Max (dateValue ` date ` set vs))"
    if "\<forall>d\<in>set vs. \<exists>t. date d = DDate t"
  proof -
    from m(1) that obtain t where "m = DDate t" by auto
    then show ?thesis using m(2,3) by (simp add: xDomain_upper_def)
  qed
qed

text \<open>Whole numbers of milliseconds within a day of the range of dates are not changed.\<close>

lemma whole_dates:
  assumes "vs \<noteq> []"
    and "\<forall>n::int. \<bar>n\<bar> \<le> 9007199254740992 \<longrightarrow> fl (of_int n) = of_int n"
    and "\<forall>d\<in>set vs. \<exists>n::int. date d = DNumber (of_int n) \<and> \<bar>n\<bar> \<le> 8639999913600000"
  shows "newDate (Some (fl (Min (dateValue ` date ` set vs) - 86400000))) =
           Some (Min (dateValue ` date ` set vs) - 86400000)"
    and "newDate (Some (fl (Max (dateValue ` date ` set vs) + 86400000))) =
           Some (Max (dateValue ` date ` set vs) + 86400000)"
proof -
  let ?D = "dateValue ` date ` set vs"
  have fin: "finite ?D" "?D \<noteq> {}" using assms(1) by simp_all
  have all: "\<exists>n::int. x = of_int n \<and> \<bar>n\<bar> \<le> 8639999913600000" if "x \<in> ?D" for x
    using that assms(3) by fastforce
  from Min_in[OF fin] all obtain a :: int where
    a: "Min ?D = of_int a" "\<bar>a\<bar> \<le> 8639999913600000" by blast
  from Max_in[OF fin] all obtain b :: int where
    b: "Max ?D = of_int b" "\<bar>b\<bar> \<le> 8639999913600000" by blast
  have fa: "fl (of_int (a - 86400000)) = of_int (a - 86400000)"
    using assms(2)[rule_format, of "a - 86400000"] a(2) by linarith
  have fb: "fl (of_int (b + 86400000)) = of_int (b + 86400000)"
    using assms(2)[rule_format, of "b + 86400000"] b(2) by linarith
  have "newDate (Some (of_int (a - 86400000))) = Some (of_int (a - 86400000))"
    by (rule newDate_int) (use a(2) in linarith)
  then have "newDate (Some (fl (of_int (a - 86400000)))) = Some (of_int (a - 86400000))"
    by (simp only: fa)
  then show "newDate (Some (fl (Min ?D - 86400000))) = Some (Min ?D - 86400000)"
    using a(1) by simp
  have "newDate (Some (of_int (b + 86400000))) = Some (of_int (b + 86400000))"
    by (rule newDate_int) (use b(2) in linarith)
  then have "newDate (Some (fl (of_int (b + 86400000)))) = Some (of_int (b + 86400000))"
    by (simp only: fb)
  then show "newDate (Some (fl (Max ?D + 86400000))) = Some (Max ?D + 86400000)"
    using b(1) by simp
qed

text \<open>
  Claim C2, as the code has it. When neither scale has been set and the first series has
  at least one value, a render computes a linear y scale with range [height, 0] whose
  domain is the result of the host's \<open>nice()\<close> on [minimum low, maximum high], not that
  interval itself, and a time scale x with range [0, width]. The lower bound of the x
  domain is new Date(minimum date - 86400000); when the dates are numbers (timestamps in
  milliseconds) the upper bound is new Date(maximum date + 86400000), the difference and
  the sum being those of doubles; and when the dates are whole numbers of milliseconds,
  at least a day inside the range of dates, the x domain is
  [minimum date - 86400000, maximum date + 86400000] (whole numbers up to 2^53 are
  doubles).
\<close>

theorem computed_scales:
  assumes "cs_xScale st = None" and "cs_yScale st = None" and "values' s \<noteq> []"
  shows "\<exists>st' out xd. cs_my nice parse fl ap st ((s, g) # rest) = Inr (st', out) \<and>
     cs_yScale st' = Some \<lparr>kind = Linear,
        s_domain = nice (Some (Min (low ` set (values' s))), Some (Max (high ` set (values' s)))),
        s_range = (cs_height st, 0)\<rparr> \<and>
     cs_xScale st' = Some \<lparr>kind = Time, s_domain = xd, s_range = (0, cs_width st)\<rparr> \<and>
     fst xd = newDate (Some (fl (Min (dateValue ` date ` set (values' s)) - 86400000))) \<and>
     ((\<forall>d\<in>set (values' s). \<exists>x. date d = DNumber x) \<longrightarrow>
        snd xd = newDate (Some (fl (Max (dateValue ` date ` set (values' s)) + 86400000)))) \<and>
     ((\<forall>n::int. \<bar>n\<bar> \<le> 9007199254740992 \<longrightarrow> fl (of_int n) = of_int n) \<and>
      (\<forall>d\<in>set (values' s). \<exists>n::int. date d = DNumber (of_int n) \<and> \<bar>n\<bar> \<le> 8639999913600000) \<longrightarrow>
        xd = (Some (Min (dateValue ` date ` set (values' s)) - 86400000),
              Some (Max (dateValue ` date ` set (values' s)) + 86400000)))"
proof -
  let ?D = "dateValue ` date ` set (values' s)"
  let ?lo = "xDomain_lower fl (d3_min (\<lambda>d. Some (dateValue d)) (map date (values' s)))"
  let ?hi = "xDomain_upper parse fl (d3_max (\<lambda>d. Some (dateValue d)) (map date (values' s)))"
  from cs_my_returns[of nice parse fl st "(s, g)" ap rest] obtain st1 out c' where
    i: "cs_init nice parse fl st (Some s) = Inr st1"
    and m: "cs_my nice parse fl ap st ((s, g) # rest) = Inr (st1\<lparr>cs_colorScale := Some c'\<rparr>, out)"
    by auto
  note c = cs_init_computed[OF assms(1,2) i]
  have lows: "d3_min Some (map low (values' s)) = Some (Min (low ` set (values' s)))"
    using d3_min_reals[of "map low (values' s)"] assms(3) by simp
  have highs: "d3_max Some (map high (values' s)) = Some (Max (high ` set (values' s)))"
    using d3_max_reals[of "map high (values' s)"] assms(3) by simp
  note xb = xDomain_bounds[OF assms(3)]
  have y: "cs_yScale (st1\<lparr>cs_colorScale := Some c'\<rparr>) = Some \<lparr>kind = Linear,
        s_domain = nice (Some (Min (low ` set (values' s))), Some (Max (high ` set (values' s)))),
        s_range = (cs_height st, 0)\<rparr>"
    using c(2) lows highs by simp
  have x: "cs_xScale (st1\<lparr>cs_colorScale := Some c'\<rparr>) =
             Some \<lparr>kind = Time, s_domain = (?lo, ?hi), s_range = (0, cs_width st)\<rparr>"
    using c(1) by simp
  have l: "fst (?lo, ?hi) = newDate (Some (fl (Min ?D - 86400000)))" using xb(1) by simp
  have u: "snd (?lo, ?hi) = newDate (Some (fl (Max ?D + 86400000)))"
    if "\<forall>d\<in>set (values' s). \<exists>x. date d = DNumber x"
    using xb(2)[OF that] by simp
  have w: "(?lo, ?hi) = (Some (Min ?D - 86400000), Some (Max ?D + 86400000))"
    if f: "\<forall>n::int. \<bar>n\<bar> \<le> 9007199254740992 \<longrightarrow> fl (of_int n) = of_int n"
      and a: "\<forall>d\<in>set (values' s). \<exists>n::int. date d = DNumber (of_int n) \<and> \<bar>n\<bar> \<le> 8639999913600000"
  proof -
    have n: "\<forall>d\<in>set (values' s). \<exists>x. date d = DNumber x" using a by blast
    show ?thesis using xb(1) xb(2)[OF n] whole_dates[OF assms(3) f a] by simp
  qed
  show ?thesis using m y x l u w by blast
qed

text \<open>
  The example series on a fresh component: dates 1, 2, 3, lows and highs spanning
  [3/2, 19/2]; and the series with dates 3/2 and 5/2, whose bounds are truncated to whole
  milliseconds.
\<close>

lemma ex_low_high:
  "Min (low ` set (values' ex_series)) = 3 / 2" "Max (high ` set (values' ex_series)) = 19 / 2"
  "Min (low ` set (values' ex_fraction)) = 3 / 2" "Max (high ` set (values' ex_fraction)) = 19 / 2"
  by (simp_all add: ex_series_def ex_fraction_def ex_up_def ex_down_def ex_flat_def)

lemma ex_dates:
  "Min (dateValue ` date ` set (values' ex_series)) = 1"
  "Max (dateValue ` date ` set (values' ex_series)) = 3"
  "Min (dateValue ` date ` set (values' ex_fraction)) = 3 / 2"
  "Max (dateValue ` date ` set (values' ex_fraction)) = 5 / 2"
  by (simp_all add: ex_series_def ex_fraction_def ex_up_def ex_down_def ex_flat_def)

lemma ex_truncated:
  "newDate (Some (ex_fl (3 / 2 - 86400000))) = Some (- 86399998)"
  "newDate (Some (ex_fl (5 / 2 + 86400000))) = Some 86400002"
proof -
  have "\<lceil>3 / 2 - 86400000 :: real\<rceil> = - 86399998" by linarith
  then show "newDate (Some (ex_fl (3 / 2 - 86400000))) = Some (- 86399998)"
    by (simp add: newDate_def ex_fl_def)
  have "\<lfloor>5 / 2 + 86400000 :: real\<rfloor> = 86400002" by linarith
  then show "newDate (Some (ex_fl (5 / 2 + 86400000))) = Some 86400002"
    by (simp add: newDate_def ex_fl_def)
qed

theorem computed_scales_witness:
  "cs_xScale candleSticks = None \<and> cs_yScale candleSticks = None \<and>
   values' ex_series \<noteq> [] \<and> values' ex_fraction \<noteq> [] \<and>
   (\<exists>st' out. cs_my ex_nice ex_parse ex_fl linear_ap candleSticks [(ex_series, empty_group)] =
        Inr (st', out) \<and>
     cs_xScale st' = Some \<lparr>kind = Time, s_domain = (Some (- 86399999), Some 86400003),
                            s_range = (0, 400)\<rparr> \<and>
     cs_yScale st' = Some \<lparr>kind = Linear, s_domain = (Some 1, Some 10), s_range = (400, 0)\<rparr>) \<and>
   (\<exists>st' out. cs_my ex_nice ex_parse ex_fl linear_ap candleSticks [(ex_fraction, empty_group)] =
        Inr (st', out) \<and>
     cs_xScale st' = Some \<lparr>kind = Time, s_domain = (Some (- 86399998), Some 86400002),
                            s_range = (0, 400)\<rparr> \<and>
     cs_yScale st' = Some \<lparr>kind = Linear, s_domain = (Some 1, Some 10), s_range = (400, 0)\<rparr>)"
proof -
  have a: "cs_xScale candleSticks = None" "cs_yScale candleSticks = None"
    by (simp_all add: candleSticks_def)
  have b: "values' ex_series \<noteq> []" "values' ex_fraction \<noteq> []"
    by (simp_all add: ex_series_def ex_fraction_def)
  have w: "cs_width candleSticks = 400" "cs_height candleSticks = 400"
    by (simp_all add: candleSticks_def)
  have n: "ex_nice (Some (3 / 2), Some (19 / 2)) = (Some 1, Some 10)" by (simp add: ex_nice_def)
  have whole: "\<forall>d\<in>set (values' ex_series).
                 \<exists>n::int. date d = DNumber (of_int n) \<and> \<bar>n\<bar> \<le> 8639999913600000"
  proof -
    have "DNumber 1 = DNumber (of_int 1) \<and> \<bar>1::int\<bar> \<le> 8639999913600000"
         "DNumber 2 = DNumber (of_int 2) \<and> \<bar>2::int\<bar> \<le> 8639999913600000"
         "DNumber 3 = DNumber (of_int 3) \<and> \<bar>3::int\<bar> \<le> 8639999913600000"
      by simp_all
    then show ?thesis
      unfolding ex_series_def ex_up_def ex_down_def ex_flat_def by (simp del: of_int_numeral)
  qed
  have exact: "\<forall>n::int. \<bar>n\<bar> \<le> 9007199254740992 \<longrightarrow> ex_fl (of_int n) = of_int n"
    by (simp add: ex_fl_def)
  have nums: "\<forall>d\<in>set (values' ex_fraction). \<exists>x. date d = DNumber x"
    by (auto simp: ex_fraction_def simp del: jsdate.inject)
  from computed_scales[OF a b(1), of ex_nice ex_parse ex_fl linear_ap empty_group "[]"]
  obtain st1 out1 xd1 where
    r1: "cs_my ex_nice ex_parse ex_fl linear_ap candleSticks [(ex_series, empty_group)] = Inr (st1, out1)"
    and y1: "cs_yScale st1 = Some \<lparr>kind = Linear, s_domain = (Some 1, Some 10), s_range = (400, 0)\<rparr>"
    and x1: "cs_xScale st1 = Some \<lparr>kind = Time, s_domain = xd1, s_range = (0, 400)\<rparr>"
    and d1: "xd1 = (Some (- 86399999), Some 86400003)"
    using whole exact by (auto simp: ex_low_high ex_dates w n)
  from computed_scales[OF a b(2), of ex_nice ex_parse ex_fl linear_ap empty_group "[]"]
  obtain st2 out2 xd2 where
    r2: "cs_my ex_nice ex_parse ex_fl linear_ap candleSticks [(ex_fraction, empty_group)] =
           Inr (st2, out2)"
    and y2': "cs_yScale st2 = Some \<lparr>kind = Linear,
        s_domain = ex_nice (Some (Min (low ` set (values' ex_fraction))),
                            Some (Max (high ` set (values' ex_fraction)))),
        s_range = (cs_height candleSticks, 0)\<rparr>"
    and x2': "cs_xScale st2 = Some \<lparr>kind = Time, s_domain = xd2,
        s_range = (0, cs_width candleSticks)\<rparr>"
    and l2': "fst xd2 =
        newDate (Some (ex_fl (Min (dateValue ` date ` set (values' ex_fraction)) - 86400000)))"
    and u2': "(\<forall>d\<in>set (values' ex_fraction). \<exists>x. date d = DNumber x) \<longrightarrow>
        snd xd2 =
          newDate (Some (ex_fl (Max (dateValue ` date ` set (values' ex_fraction)) + 86400000)))"
    by blast
  have y2: "cs_yScale st2 =
      Some \<lparr>kind = Linear, s_domain = (Some 1, Some 10), s_range = (400, 0)\<rparr>"
    using y2' by (simp only: ex_low_high n w)
  have l2: "fst xd2 = Some (- 86399998)" using l2' by (simp only: ex_dates ex_truncated)
  have u2: "snd xd2 = Some 86400002" using u2' nums by (simp only: ex_dates ex_truncated)
  have d2: "xd2 = (Some (- 86399998), Some 86400002)" using l2 u2 by (cases xd2) simp
  have x2: "cs_xScale st2 =
      Some \<lparr>kind = Time, s_domain = (Some (- 86399998), Some 86400002), s_range = (0, 400)\<rparr>"
    using x2' d2 by (simp only: w)
  show ?thesis using a b r1 y1 x1 d1 r2 y2 x2 by blast
qed

text \<open>
  The claim as stated fails there: the y domain of the freshly rendered component is
  [1, 10], while the minimum low is 3/2 and the maximum high is 19/2.
\<close>

theorem computed_scales_counterexample:
  "cs_xScale candleSticks = None \<and> cs_yScale candleSticks = None \<and>
   (case cs_my ex_nice ex_parse ex_fl linear_ap candleSticks [(ex_series, empty_group)] of
      Inl e \<Rightarrow> None
    | Inr (st', out) \<Rightarrow> map_option s_domain (cs_yScale st')) = Some (Some 1, Some 10) \<and>
   Min (low ` set (values' ex_series)) = 3 / 2 \<and>
   Max (high ` set (values' ex_series)) = 19 / 2"
proof -
  have a: "cs_xScale candleSticks = None" "cs_yScale candleSticks = None"
    by (simp_all add: candleSticks_def)
  have lows: "d3_min Some (map low (values' ex_series)) = Some (3 / 2)"
    by (simp add: ex_series_def ex_up_def ex_down_def ex_flat_def js_gt_def)
  have highs: "d3_max Some (map high (values' ex_series)) = Some (19 / 2)"
    by (simp add: ex_series_def ex_up_def ex_down_def ex_flat_def js_gt_def)
  from cs_my_returns[of ex_nice ex_parse ex_fl candleSticks "(ex_series, empty_group)" linear_ap "[]"]
  obtain st1 out c' where
    i: "cs_init ex_nice ex_parse ex_fl candleSticks (Some ex_series) = Inr st1"
    and m: "cs_my ex_nice ex_parse ex_fl linear_ap candleSticks [(ex_series, empty_group)] =
              Inr (st1\<lparr>cs_colorScale := Some c'\<rparr>, out)" by auto
  from cs_init_computed(2)[OF a i]
  have "cs_yScale st1 = Some \<lparr>kind = Linear, s_domain = (Some 1, Some 10), s_range = (400, 0)\<rparr>"
    by (simp add: lows highs ex_nice_def candleSticks_def)
  then show ?thesis using a m by (simp add: ex_low_high)
qed

section \<open>The line chart\<close>

text \<open>
  The domain a time scale gets from \<open>d3.extent\<close>: the least and the greatest of the time
  values that are numbers, \<open>undefined\<close> twice when there is none.
\<close>

lemma extent_domain:
  "(Option.bind (fst (d3_extent num vs)) num, Option.bind (snd (d3_extent num vs)) num) =
     (let ts = List.map_filter num vs
      in if ts = [] then (None, None) else (Some (Min (set ts)), Some (Max (set ts))))"
proof (cases "List.map_filter num vs = []")
  case True
  then show ?thesis by (simp add: d3_extent_min_max d3_min_None d3_max_None Let_def)
next
  case False
  from d3_min_Some[OF False] obtain a where
    a: "d3_min num vs = Some a" "num a = Some (Min (set (List.map_filter num vs)))" by blast
  from d3_max_Some[OF False] obtain b where
    b: "d3_max num vs = Some b" "num b = Some (Max (set (List.map_filter num vs)))" by blast
  show ?thesis using False a b by (simp add: d3_extent_min_max Let_def)
qed

lemma converted_keys:
  "List.map_filter keyValue
     (map pkey (map (\<lambda>b. b\<lparr>pkey := KDate (newDate (map_option (\<lambda>x. fl (x * 1000)) (keyValue (pkey b))))\<rparr>) vs)) =
   List.map_filter (\<lambda>b. newDate (map_option (\<lambda>x. fl (x * 1000)) (keyValue (pkey b)))) vs"
  by (induction vs) (simp_all add: map_filter_simps split: option.splits)

text \<open>\<open>init\<close> on an array that is not empty.\<close>

lemma lc_init_Cons:
  "lc_init dataParse fl st (d0 # rest) =
     Inr (st\<lparr>lc_chartW := Some (lc_width st - m_left (lc_margin st) - m_right (lc_margin st)),
             lc_chartH := Some (lc_height st - m_top (lc_margin st) - m_bottom (lc_margin st)),
             lc_colorScale := Some (case lc_colorScale st of
                None \<Rightarrow> scaleOrdinal (groupNames (dataParse (d0 # rest))) (lc_colors st)
              | Some c \<Rightarrow> c),
             lc_xScale := Some \<lparr>kind = Time,
                s_domain =
                  (Option.bind (fst (d3_extent keyValue
                      (map pkey (values' (hd (convertDates fl (d0 # rest))))))) keyValue,
                   Option.bind (snd (d3_extent keyValue
                      (map pkey (values' (hd (convertDates fl (d0 # rest))))))) keyValue),
                s_range = (0, lc_width st - m_left (lc_margin st) - m_right (lc_margin st))\<rparr>,
             lc_yScale := Some \<lparr>kind = Linear,
                s_domain = (Some 0, Some (maxValue (dataParse (d0 # rest)) * 1.05)),
                s_range = (lc_height st - m_top (lc_margin st) - m_bottom (lc_margin st), 0)\<rparr>,
             lc_xAxis := Some \<lparr>orient = ''bottom'',
                a_scale = \<lparr>kind = Time,
                  s_domain =
                    (Option.bind (fst (d3_extent keyValue
                        (map pkey (values' (hd (convertDates fl (d0 # rest))))))) keyValue,
                     Option.bind (snd (d3_extent keyValue
                        (map pkey (values' (hd (convertDates fl (d0 # rest))))))) keyValue),
                  s_range = (0, lc_width st - m_left (lc_margin st) - m_right (lc_margin st))\<rparr>,
                tickFormat = Some ''%d-%b-%y''\<rparr>,
             lc_yAxis := Some \<lparr>orient = ''left'',
                a_scale = \<lparr>kind = Linear,
                  s_domain = (Some 0, Some (maxValue (dataParse (d0 # rest)) * 1.05)),
                  s_range = (lc_height st - m_top (lc_margin st) - m_bottom (lc_margin st), 0)\<rparr>,
                tickFormat = None\<rparr>\<rparr>,
          convertDates fl (d0 # rest))"
  by (simp add: lc_init_def convertDates_def Let_def)

text \<open>
  Claim C3. On every call of \<open>init\<close> with a non-empty data array, whatever the component
  held before: chartW = width - margin.left - margin.right and
  chartH = height - margin.top - margin.bottom; the y scale is linear with domain
  [0, maxValue * 1.05], for the maxValue that \<open>dataParse\<close> reports, and range [chartH, 0];
  the x scale is a time scale with range [0, chartW] whose domain is the extent of the
  converted keys of the first series' values, the dates new Date(key * 1000) (the product
  is that of doubles): the least and the greatest of those that are valid dates, and
  [undefined, undefined] when there is none.
\<close>

theorem line_chart_scales:
  "\<exists>st'. lc_init dataParse fl st (d0 # rest) = Inr (st', convertDates fl (d0 # rest)) \<and>
     lc_chartW st' = Some (lc_width st - m_left (lc_margin st) - m_right (lc_margin st)) \<and>
     lc_chartH st' = Some (lc_height st - m_top (lc_margin st) - m_bottom (lc_margin st)) \<and>
     lc_yScale st' = Some \<lparr>kind = Linear,
        s_domain = (Some 0, Some (maxValue (dataParse (d0 # rest)) * 1.05)),
        s_range = (lc_height st - m_top (lc_margin st) - m_bottom (lc_margin st), 0)\<rparr> \<and>
     lc_xScale st' = Some \<lparr>kind = Time,
        s_domain =
          (let ts = List.map_filter
                      (\<lambda>b. newDate (map_option (\<lambda>x. fl (x * 1000)) (keyValue (pkey b)))) (values' d0)
           in if ts = [] then (None, None) else (Some (Min (set ts)), Some (Max (set ts)))),
        s_range = (0, lc_width st - m_left (lc_margin st) - m_right (lc_margin st))\<rparr>"
proof -
  let ?vs = "map (\<lambda>b. b\<lparr>pkey := KDate (newDate (map_option (\<lambda>x. fl (x * 1000)) (keyValue (pkey b))))\<rparr>)
                 (values' d0)"
  have h: "map pkey (values' (hd (convertDates fl (d0 # rest)))) = map pkey ?vs"
    by (simp add: convertDates_def)
  have d: "(Option.bind (fst (d3_extent keyValue (map pkey ?vs))) keyValue,
            Option.bind (snd (d3_extent keyValue (map pkey ?vs))) keyValue) =
     (let ts = List.map_filter
                 (\<lambda>b. newDate (map_option (\<lambda>x. fl (x * 1000)) (keyValue (pkey b)))) (values' d0)
      in if ts = [] then (None, None) else (Some (Min (set ts)), Some (Max (set ts))))"
    unfolding extent_domain converted_keys ..
  show ?thesis unfolding lc_init_Cons h d by simp
qed

text \<open>
  Keys 1 and 2 (seconds) give the domain [1000, 2000]. Of the keys 1/512, 2.5, 1e13, the
  date of time value 3 and an invalid date, the first is converted to the date 1
  (1.953125 truncated), the second to 2500, the third to an invalid date (1e16 is beyond
  the range of dates), the fourth to 3000, the last to an invalid date: the domain is
  [1, 3000].
\<close>

theorem line_chart_scales_witness:
  "(\<exists>st'. lc_init ex_dataParse ex_fl (lineChart ex_palette) ex_line = Inr (st', ex_line1) \<and>
      lc_chartW st' = Some 340 \<and> lc_chartH st' = Some 240 \<and>
      lc_yScale st' = Some \<lparr>kind = Linear, s_domain = (Some 0, Some (147 / 20)),
                             s_range = (240, 0)\<rparr> \<and>
      lc_xScale st' = Some \<lparr>kind = Time, s_domain = (Some 1000, Some 2000),
                             s_range = (0, 340)\<rparr>) \<and>
   map pkey (values' (hd (convertDates ex_fl ex_keys))) =
     [KDate (Some 1), KDate (Some 2500), KDate None, KDate (Some 3000), KDate None] \<and>
   (\<exists>st'. lc_init ex_dataParse ex_fl (lineChart ex_palette) ex_keys = Inr (st', convertDates ex_fl ex_keys) \<and>
      lc_xScale st' = Some \<lparr>kind = Time, s_domain = (Some 1, Some 3000), s_range = (0, 340)\<rparr>)"
proof -
  have fr: "\<lfloor>125 / 64 :: real\<rfloor> = 1" by linarith
  have c1: "convertDates ex_fl ex_line = ex_line1"
    by (simp add: convertDates_def ex_line_def ex_line1_def newDate_def ex_fl_def)
  have k: "map pkey (values' (hd (convertDates ex_fl ex_keys))) =
        [KDate (Some 1), KDate (Some 2500), KDate None, KDate (Some 3000), KDate None]"
    using fr by (simp add: convertDates_def ex_keys_def newDate_def ex_fl_def)
  have w: "lc_width (lineChart ex_palette) = 400" "lc_height (lineChart ex_palette) = 300"
    "lc_margin (lineChart ex_palette) = \<lparr>m_top = 20, m_right = 20, m_bottom = 40, m_left = 40\<rparr>"
    by (simp_all add: lineChart_def)
  from line_chart_scales[of ex_dataParse ex_fl "lineChart ex_palette" "hd ex_line" "tl ex_line"]
  have a: "\<exists>st'. lc_init ex_dataParse ex_fl (lineChart ex_palette) ex_line = Inr (st', ex_line1) \<and>
      lc_chartW st' = Some 340 \<and> lc_chartH st' = Some 240 \<and>
      lc_yScale st' = Some \<lparr>kind = Linear, s_domain = (Some 0, Some (147 / 20)),
                             s_range = (240, 0)\<rparr> \<and>
      lc_xScale st' = Some \<lparr>kind = Time, s_domain = (Some 1000, Some 2000),
                             s_range = (0, 340)\<rparr>"
    using c1 by (simp add: w ex_line_def ex_dataParse_def newDate_def Let_def ex_fl_def)
  from line_chart_scales[of ex_dataParse ex_fl "lineChart ex_palette" "hd ex_keys" "tl ex_keys"]
  have b: "\<exists>st'. lc_init ex_dataParse ex_fl (lineChart ex_palette) ex_keys =
                   Inr (st', convertDates ex_fl ex_keys) \<and>
      lc_xScale st' = Some \<lparr>kind = Time, s_domain = (Some 1, Some 3000), s_range = (0, 340)\<rparr>"
    using fr by (simp add: w ex_keys_def newDate_def Let_def ex_fl_def) blast
  show ?thesis using a b k by simp
qed

section \<open>circularLabels\<close>

lemma text_elements_map:
  "text_elements ds = Inr (map (\<lambda>(t, off). \<lparr>l_text = t, l_offset = off\<rparr>) ds)"
  by (induction ds) (auto simp: label_text_def capitalizeLabels_def)

lemma cl_each_Some:
  assumes "cl_radialScale st = Some rs"
  shows "cl_each fl st =
     Inr (st\<lparr>cl_radius := Some (case cl_radius st of
                                   None \<Rightarrow> min (cl_width st) (cl_height st) / 2 | Some r \<Rightarrow> r)\<rparr>,
          map (\<lambda>(t, off). \<lparr>l_text = t, l_offset = off\<rparr>) (label_data rs),
          temp_log fl rs)"
  using assms by (simp add: cl_each_def text_elements_map Let_def)

text \<open>Every selected element gets the same labels.\<close>

lemma cl_my_labels:
  "cl_radialScale st = Some rs \<Longrightarrow>
     \<exists>st' lg. cl_my fl st sel =
       Inr (st', replicate (length sel)
                   (map (\<lambda>(t, off). \<lparr>l_text = t, l_offset = off\<rparr>) (label_data rs)), lg)"
proof (induction sel arbitrary: st)
  case Nil
  then show ?case by simp
next
  case (Cons d ds)
  let ?st1 = "st\<lparr>cl_radius := Some (case cl_radius st of
                   None \<Rightarrow> min (cl_width st) (cl_height st) / 2 | Some r \<Rightarrow> r)\<rparr>"
  have "cl_radialScale ?st1 = Some rs" using Cons.prems by simp
  from Cons.IH[OF this] obtain st' lg where
    "cl_my fl ?st1 ds =
       Inr (st', replicate (length ds)
                   (map (\<lambda>(t, off). \<lparr>l_text = t, l_offset = off\<rparr>) (label_data rs)), lg)"
    by blast
  then show ?case using cl_each_Some[OF Cons.prems] by simp
qed

lemma label_data_texts:
  "map l_text (map (\<lambda>(t, off). \<lparr>l_text = t, l_offset = off\<rparr>) (label_data rs)) = tickData rs"
  by (rule nth_equalityI) (simp_all add: label_data_def nth_enumerate_eq)

lemma label_data_offsets:
  "map l_offset (map (\<lambda>(t, off). \<lparr>l_text = t, l_offset = off\<rparr>) (label_data rs)) =
     map (\<lambda>i. (textScale (length (tickData rs)) (radial_range rs) i / 360) * 100)
         [0..<length (tickData rs)]"
  by (rule nth_equalityI) (simp_all add: label_data_def nth_enumerate_eq)

text \<open>
  Claim C4. A render of a component with a radial scale returns, and every selected
  element gets the same labels, one for each tick, in the order of the ticks
  t_0 .. t_(n-1), which are \<open>ticks()\<close> of a linear scale and \<open>domain()\<close> of a band scale.
  The text of the i-th label is t_i itself, and the percentage of its startOffset is
  (textScale(i) / 360) * 100 for the linear scale textScale with domain [0, n] and the
  range [r0, r1] of the radial scale, that is ((r0 + i / n * (r1 - r0)) / 360) * 100;
  for the range [0, 360] it is i * 100 / n.
\<close>

theorem label_offsets:
  assumes "cl_radialScale st = Some radialScale"
  shows "\<exists>st' labels lg.
     cl_my fl st selection = Inr (st', replicate (length selection) labels, lg) \<and>
     (\<forall>ds rng ts. radialScale = RadialLinear ds rng ts \<longrightarrow>
        map l_text labels = map TNumber ts \<and>
        map l_offset labels =
          map (\<lambda>i. ((fst rng + real i / real (length ts) * (snd rng - fst rng)) / 360) * 100)
              [0..<length ts] \<and>
        (rng = (0, 360) \<longrightarrow>
           map l_offset labels = map (\<lambda>i. real i * 100 / real (length ts)) [0..<length ts])) \<and>
     (\<forall>ds rng. radialScale = RadialBand ds rng \<longrightarrow>
        map l_text labels = map TString ds \<and>
        map l_offset labels =
          map (\<lambda>i. ((fst rng + real i / real (length ds) * (snd rng - fst rng)) / 360) * 100)
              [0..<length ds] \<and>
        (rng = (0, 360) \<longrightarrow>
           map l_offset labels = map (\<lambda>i. real i * 100 / real (length ds)) [0..<length ds]))"
proof -
  let ?ls = "map (\<lambda>(t, off). \<lparr>l_text = t, l_offset = off\<rparr>) (label_data radialScale)"
  from cl_my_labels[OF assms, where sel = selection and fl = fl] obtain st' lg where
    m: "cl_my fl st selection = Inr (st', replicate (length selection) ?ls, lg)" by blast
  have lin: "map l_text ?ls = map TNumber ts \<and>
        map l_offset ?ls =
          map (\<lambda>i. ((fst rng + real i / real (length ts) * (snd rng - fst rng)) / 360) * 100)
              [0..<length ts] \<and>
        (rng = (0, 360) \<longrightarrow>
           map l_offset ?ls = map (\<lambda>i. real i * 100 / real (length ts)) [0..<length ts])"
    if "radialScale = RadialLinear ds rng ts" for ds rng ts
    unfolding label_data_texts label_data_offsets that by (simp add: textScale_def)
  have band: "map l_text ?ls = map TString ds \<and>
        map l_offset ?ls =
          map (\<lambda>i. ((fst rng + real i / real (length ds) * (snd rng - fst rng)) / 360) * 100)
              [0..<length ds] \<and>
        (rng = (0, 360) \<longrightarrow>
           map l_offset ?ls = map (\<lambda>i. real i * 100 / real (length ds)) [0..<length ds])"
    if "radialScale = RadialBand ds rng" for ds rng
    unfolding label_data_texts label_data_offsets that by (simp add: textScale_def)
  show ?thesis using m lin band by blast
qed

text \<open>
  A linear scale with the domain [0, 70] and the eight ticks 0, 10, .., 70 over [0, 360],
  rendered into one element: the labels are the ticks, at 0, 12.5, 25, .., 87.5 percent;
  the rounded values of \<open>newtick\<close> (8.75 i rounded: 0, 9, 18, 26, 35, 44, 53, 61) reach the
  console only. A band scale of four keys over [0, 180], rendered into two elements: the
  labels are the keys, at 0, 12.5, 25 and 37.5 percent.
\<close>

lemma ex_linear_eval:
  "cl_my ex_fl ex_labels_linear [()] =
     Inr (ex_labels_linear\<lparr>cl_radius := Some 150\<rparr>, [ex_linear_el],
          [LogNumber (Some 0), LogNumber (Some 70),
           LogArray [Some 0, Some 9, Some 18, Some 26, Some 35, Some 44, Some 53, Some 61]])"
  by (simp add: cl_each_def ex_labels_linear_def circularLabels_def ex_linear_def label_data_def
      enumerate_eq_zip textScale_def label_text_def capitalizeLabels_def upt_rec Let_def
      newtick_def toFixed0_def ex_linear_el_def js_gt_def ex_fl_def)

lemma ex_band_eval:
  "cl_my ex_fl ex_labels_band [(), ()] =
     Inr (ex_labels_band\<lparr>cl_radius := Some 150\<rparr>, [ex_band_el, ex_band_el], [])"
  by (simp add: cl_each_def ex_labels_band_def circularLabels_def ex_band_def label_data_def
      enumerate_eq_zip textScale_def label_text_def capitalizeLabels_def upt_rec Let_def
      ex_band_el_def)

theorem label_offsets_witness:
  "cl_radialScale ex_labels_linear =
     Some (RadialLinear [0, 70] (0, 360) [0, 10, 20, 30, 40, 50, 60, 70]) \<and>
   cl_radialScale ex_labels_band = Some (RadialBand [''N'', ''E'', ''S'', ''W''] (0, 180)) \<and>
   (\<exists>st' lg. cl_my ex_fl ex_labels_linear [()] = Inr (st', [ex_linear_el], lg)) \<and>
   map l_text ex_linear_el =
     [TNumber 0, TNumber 10, TNumber 20, TNumber 30, TNumber 40, TNumber 50, TNumber 60,
      TNumber 70] \<and>
   map l_offset ex_linear_el = [0, 25 / 2, 25, 75 / 2, 50, 125 / 2, 75, 175 / 2] \<and>
   map l_offset ex_linear_el = map (\<lambda>i. real i * 100 / 8) [0..<8] \<and>
   (\<exists>st' lg. cl_my ex_fl ex_labels_band [(), ()] = Inr (st', [ex_band_el, ex_band_el], lg)) \<and>
   map l_text ex_band_el = [TString ''N'', TString ''E'', TString ''S'', TString ''W''] \<and>
   map l_offset ex_band_el = [0, 25 / 2, 25, 75 / 2]"
proof -
  have l: "cl_radialScale ex_labels_linear =
             Some (RadialLinear [0, 70] (0, 360) [0, 10, 20, 30, 40, 50, 60, 70])"
    by (simp add: ex_labels_linear_def ex_linear_def)
  have b: "cl_radialScale ex_labels_band = Some (RadialBand [''N'', ''E'', ''S'', ''W''] (0, 180))"
    by (simp add: ex_labels_band_def ex_band_def)
  from label_offsets[OF l, where selection = "[()]" and fl = ex_fl] obtain st1 labels1 lg1 where
    m1: "cl_my ex_fl ex_labels_linear [()] = Inr (st1, replicate (length [()]) labels1, lg1)"
    and t1: "map l_text labels1 = map TNumber [0, 10, 20, 30, 40, 50, 60, 70]"
    and o1: "map l_offset labels1 =
               map (\<lambda>i. real i * 100 / real (length [0, 10, 20, 30, 40, 50, 60, 70 :: real]))
                   [0..<length [0, 10, 20, 30, 40, 50, 60, 70 :: real]]"
    by blast
  from m1 have e1: "labels1 = ex_linear_el" unfolding ex_linear_eval by simp
  from label_offsets[OF b, where selection = "[(), ()]" and fl = ex_fl] obtain st2 labels2 lg2 where
    m2: "cl_my ex_fl ex_labels_band [(), ()] = Inr (st2, replicate (length [(), ()]) labels2, lg2)"
    and bd: "\<forall>ds rng. RadialBand [''N'', ''E'', ''S'', ''W''] (0, 180) = RadialBand ds rng \<longrightarrow>
        map l_text labels2 = map TString ds \<and>
        map l_offset labels2 =
          map (\<lambda>i. ((fst rng + real i / real (length ds) * (snd rng - fst rng)) / 360) * 100)
              [0..<length ds] \<and>
        (rng = (0, 360) \<longrightarrow>
           map l_offset labels2 = map (\<lambda>i. real i * 100 / real (length ds)) [0..<length ds])"
    by (elim exE conjE) (rule that)
  note bd' = bd[rule_format, OF refl]
  have t2: "map l_text labels2 = map TString [''N'', ''E'', ''S'', ''W'']" using bd' by (rule conjunct1)
  from m2 have e2: "labels2 = ex_band_el" unfolding ex_band_eval by simp
  have o1': "map l_offset ex_linear_el = map (\<lambda>i. real i * 100 / 8) [0..<8]"
    using o1 e1 by (simp add: upt_rec)
  have o1'': "map l_offset ex_linear_el = [0, 25 / 2, 25, 75 / 2, 50, 125 / 2, 75, 175 / 2]"
    by (simp add: ex_linear_el_def)
  have o2': "map l_offset ex_band_el = [0, 25 / 2, 25, 75 / 2]"
    using bd' e2 by (simp add: upt_rec)
  show ?thesis
    using l b m1 e1 t1 o1' o1'' m2 e2 t2 o2' by (simp add: upt_rec)
qed

section \<open>Rendering twice\<close>












text \<open>
  The line chart rendered twice with the same array. The first \<open>init\<close> has written the
  dates 1000 and 2000 over the keys 1 and 2; the second takes them for seconds again and
  writes the dates 1000000 and 2000000, and the x domain follows.
\<close>

lemma ex_line_second:
  "lc_init ex_dataParse ex_fl ex_lineChart1 ex_line1 =
     Inr (ex_lineChart1
            \<lparr>lc_xScale := Some \<lparr>kind = Time, s_domain = (Some 1000000, Some 2000000),
                                 s_range = (0, 340)\<rparr>,
             lc_xAxis := Some \<lparr>orient = ''bottom'',
                a_scale = \<lparr>kind = Time, s_domain = (Some 1000000, Some 2000000),
                           s_range = (0, 340)\<rparr>,
                tickFormat = Some ''%d-%b-%y''\<rparr>\<rparr>,
          ex_line2)"
  by (simp add: lc_init_def convertDates_def ex_line1_def ex_line2_def ex_dataParse_def
      ex_lineChart1_def lineChart_def Let_def newDate_def js_gt_def ex_fl_def)

section \<open>The configuration methods\<close>

text \<open>
  Every method but the dispatch getter: without an argument it returns the stored value
  and leaves the component as it is; with an argument it stores the argument in its own
  variable and returns the component.
\<close>

lemma candleSticks_methods:
  "cs_my_width None st = (Value (cs_width st), st)"
  "cs_my_width (Some w) st = (This, st\<lparr>cs_width := w\<rparr>)"
  "cs_my_height None st = (Value (cs_height st), st)"
  "cs_my_height (Some h) st = (This, st\<lparr>cs_height := h\<rparr>)"
  "cs_my_colorScale None st = (Value (cs_colorScale st), st)"
  "cs_my_colorScale (Some c) st = (This, st\<lparr>cs_colorScale := c\<rparr>)"
  "cs_my_colors None st = (Value (cs_colors st), st)"
  "cs_my_colors (Some cols) st = (This, st\<lparr>cs_colors := cols\<rparr>)"
  "cs_my_xScale None st = (Value (cs_xScale st), st)"
  "cs_my_xScale (Some x) st = (This, st\<lparr>cs_xScale := x\<rparr>)"
  "cs_my_yScale None st = (Value (cs_yScale st), st)"
  "cs_my_yScale (Some y) st = (This, st\<lparr>cs_yScale := y\<rparr>)"
  "cs_my_candleWidth None st = (Value (cs_candleWidth st), st)"
  "cs_my_candleWidth (Some cw) st = (This, st\<lparr>cs_candleWidth := cw\<rparr>)"
  "cs_my_dispatch (Some d) st = Inr (This, st\<lparr>cs_dispatch := d\<rparr>)"
  by (simp_all add: cs_my_width_def cs_my_height_def cs_my_colorScale_def cs_my_colors_def
      cs_my_xScale_def cs_my_yScale_def cs_my_candleWidth_def cs_my_dispatch_def)

lemma lineChart_methods:
  "lc_my_width None st = (Value (lc_width st), st)"
  "lc_my_width (Some w) st = (This, st\<lparr>lc_width := w\<rparr>)"
  "lc_my_height None st = (Value (lc_height st), st)"
  "lc_my_height (Some h) st = (This, st\<lparr>lc_height := h\<rparr>)"
  "lc_my_margin None st = (Value (lc_margin st), st)"
  "lc_my_margin (Some m) st = (This, st\<lparr>lc_margin := m\<rparr>)"
  "lc_my_yAxisLabel None st = (Value (lc_yAxisLabel st), st)"
  "lc_my_yAxisLabel (Some l) st = (This, st\<lparr>lc_yAxisLabel := l\<rparr>)"
  "lc_my_transition None st = (Value (lc_transition st), st)"
  "lc_my_transition (Some t) st = (This, st\<lparr>lc_transition := t\<rparr>)"
  "lc_my_colors None st = (Value (lc_colors st), st)"
  "lc_my_colors (Some cols) st = (This, st\<lparr>lc_colors := cols\<rparr>)"
  "lc_my_colorScale None st = (Value (lc_colorScale st), st)"
  "lc_my_colorScale (Some c) st = (This, st\<lparr>lc_colorScale := c\<rparr>)"
  "lc_my_dispatch (Some d) st = Inr (This, st\<lparr>lc_dispatch := d\<rparr>)"
  by (simp_all add: lc_my_width_def lc_my_height_def lc_my_margin_def lc_my_yAxisLabel_def
      lc_my_transition_def lc_my_colors_def lc_my_colorScale_def lc_my_dispatch_def)

lemma circularLabels_methods:
  "cl_my_height None st = (Value (cl_height st), st)"
  "cl_my_height (Some h) st = (This, st\<lparr>cl_height := h\<rparr>)"
  "cl_my_width None st = (Value (cl_width st), st)"
  "cl_my_width (Some w) st = (This, st\<lparr>cl_width := w\<rparr>)"
  "cl_my_radius None st = (Value (cl_radius st), st)"
  "cl_my_radius (Some r) st = (This, st\<lparr>cl_radius := r\<rparr>)"
  "cl_my_radialScale None st = (Value (cl_radialScale st), st)"
  "cl_my_radialScale (Some rs) st = (This, st\<lparr>cl_radialScale := rs\<rparr>)"
  "cl_my_textAnchor None st = (Value (cl_textAnchor st), st)"
  "cl_my_textAnchor (Some a) st = (This, st\<lparr>cl_textAnchor := a\<rparr>)"
  by (simp_all add: cl_my_height_def cl_my_width_def cl_my_radius_def cl_my_radialScale_def
      cl_my_textAnchor_def)

text \<open>
  Claim C6 fails for \<open>dispatch\<close>: called without an argument, \<open>my.dispatch\<close> of the
  candleSticks component and of the line chart does not return the stored dispatcher;
  it calls it, and the call throws a TypeError.
\<close>

theorem dispatch_getter_throws:
  "cs_my_dispatch None st = Inl TypeError \<and> lc_my_dispatch None lst = Inl TypeError"
  by (simp add: cs_my_dispatch_def lc_my_dispatch_def)

section \<open>Where a render fails\<close>

text \<open>
  A render fails only with the TypeError of the runtime: \<open>my\<close> of candleSticks on an
  empty selection (\<open>data\<close> is \<open>undefined\<close>), \<open>init\<close> of the line chart on an empty
  array (\<open>data[0]\<close> is \<open>undefined\<close>), \<open>my\<close> of circularLabels when no radial scale has
  been set. On every other input of the model it returns.
\<close>

lemma render_failures:
  "cs_my nice parse fl ap st [] = Inl TypeError"
  "lc_init dataParse fl lst [] = Inl TypeError"
  "cl_radialScale cst = None \<Longrightarrow> cl_my fl cst (d # ds) = Inl TypeError"
  by (simp_all add: cs_my_Nil lc_init_def convertDates_def cl_each_def Let_def)

lemma render_returns:
  "\<exists>st' out. cs_my nice parse fl ap st (el # rest) = Inr (st', out)"
  "\<exists>lst' data'. lc_init dataParse fl lst (d0 # others) = Inr (lst', data')"
  "cl_radialScale cst \<noteq> None \<Longrightarrow> \<exists>cst' els lg. cl_my fl cst selection = Inr (cst', els, lg)"
proof -
  show "\<exists>st' out. cs_my nice parse fl ap st (el # rest) = Inr (st', out)"
    using cs_my_returns[of nice parse fl st el ap rest] by blast
  show "\<exists>lst' data'. lc_init dataParse fl lst (d0 # others) = Inr (lst', data')"
    unfolding lc_init_Cons by simp
  show "cl_radialScale cst \<noteq> None \<Longrightarrow> \<exists>cst' els lg. cl_my fl cst selection = Inr (cst', els, lg)"
  proof -
    assume "cl_radialScale cst \<noteq> None"
    then obtain rs where "cl_radialScale cst = Some rs" by blast
    from cl_my_labels[OF this, where sel = selection and fl = fl] show ?thesis by blast
  qed
qed

end
